theory Spec2Isabelle
  imports Complex_Main
begin

section \<open>Numbers as the data frame holds them\<close>

text \<open>
  A numeric cell of a pandas frame is a float64: a finite number, one of the two
  infinities, or NaN (which is also how a missing value is stored). The special values
  and the way they propagate through arithmetic and comparisons are modelled as IEEE 754
  has them, because the code relies on them (a comparison with NaN is false, a division
  by zero gives an infinity or NaN). The operations \<open>fadd\<close>, \<open>fsub\<close>, \<open>fmul\<close> and
  \<open>fdiv\<close> give the exact result on finite numbers; \<open>round64\<close> below rounds an exact
  result to binary64, and the arithmetic of rule 2, of the mean and of the z-scores,
  whose outcome depends on that rounding, applies it after every operation. The sign of
  zero is not modelled.
\<close>

datatype num = Fin real | PInf | NInf | NaN

fun is_Fin :: "num \<Rightarrow> bool" where
  "is_Fin (Fin x) = True"
| "is_Fin _ = False"

fun fneg :: "num \<Rightarrow> num" where
  "fneg (Fin x) = Fin (- x)"
| "fneg PInf = NInf"
| "fneg NInf = PInf"
| "fneg NaN = NaN"

fun fadd :: "num \<Rightarrow> num \<Rightarrow> num" where
  "fadd (Fin x) (Fin y) = Fin (x + y)"
| "fadd (Fin x) PInf = PInf"
| "fadd (Fin x) NInf = NInf"
| "fadd PInf (Fin y) = PInf"
| "fadd PInf PInf = PInf"
| "fadd NInf (Fin y) = NInf"
| "fadd NInf NInf = NInf"
| "fadd _ _ = NaN"

definition fsub :: "num \<Rightarrow> num \<Rightarrow> num" where
  "fsub a b = fadd a (fneg b)"

fun fmul :: "num \<Rightarrow> num \<Rightarrow> num" where
  "fmul (Fin x) (Fin y) = Fin (x * y)"
| "fmul (Fin x) PInf = (if x > 0 then PInf else if x < 0 then NInf else NaN)"
| "fmul (Fin x) NInf = (if x > 0 then NInf else if x < 0 then PInf else NaN)"
| "fmul PInf (Fin y) = (if y > 0 then PInf else if y < 0 then NInf else NaN)"
| "fmul NInf (Fin y) = (if y > 0 then NInf else if y < 0 then PInf else NaN)"
| "fmul PInf PInf = PInf"
| "fmul NInf NInf = PInf"
| "fmul PInf NInf = NInf"
| "fmul NInf PInf = NInf"
| "fmul _ _ = NaN"

fun fdiv :: "num \<Rightarrow> num \<Rightarrow> num" where
  "fdiv (Fin x) (Fin y) =
     (if y \<noteq> 0 then Fin (x / y)
      else if x > 0 then PInf else if x < 0 then NInf else NaN)"
| "fdiv (Fin x) PInf = Fin 0"
| "fdiv (Fin x) NInf = Fin 0"
| "fdiv PInf (Fin y) = (if y \<ge> 0 then PInf else NInf)"
| "fdiv NInf (Fin y) = (if y \<ge> 0 then NInf else PInf)"
| "fdiv _ _ = NaN"

fun fabs :: "num \<Rightarrow> num" where
  "fabs (Fin x) = Fin \<bar>x\<bar>"
| "fabs PInf = PInf"
| "fabs NInf = PInf"
| "fabs NaN = NaN"

fun flt :: "num \<Rightarrow> num \<Rightarrow> bool" where
  "flt (Fin x) (Fin y) = (x < y)"
| "flt (Fin x) PInf = True"
| "flt NInf (Fin y) = True"
| "flt NInf PInf = True"
| "flt _ _ = False"

definition fgt :: "num \<Rightarrow> num \<Rightarrow> bool" where
  "fgt a b = flt b a"

fun feq :: "num \<Rightarrow> num \<Rightarrow> bool" where
  "feq NaN _ = False"
| "feq _ NaN = False"
| "feq a b = (a = b)"

definition fle :: "num \<Rightarrow> num \<Rightarrow> bool" where
  "fle a b = (flt a b \<or> feq a b)"

definition fge :: "num \<Rightarrow> num \<Rightarrow> bool" where
  "fge a b = fle b a"

text \<open>
  \<open>Series.round()\<close> rounds half to even (numpy); \<open>astype(int)\<close> of a float column
  raises \<open>IntCastingNaNError\<close> when a value is NaN or infinite. Python's \<open>int(x)\<close>
  truncates towards zero, raises \<open>ValueError\<close> on NaN and \<open>OverflowError\<close> on an
  infinity.
\<close>

datatype error = IntCastingNaNError | ValueError string | OverflowError

definition round_half_even :: "real \<Rightarrow> int" where
  "round_half_even x =
     (let f = \<lfloor>x\<rfloor>; d = x - of_int f
      in if d < 1 / 2 then f else if d > 1 / 2 then f + 1
         else if even f then f else f + 1)"

fun round_astype_int :: "num \<Rightarrow> error + int" where
  "round_astype_int (Fin x) = Inr (round_half_even x)"
| "round_astype_int _ = Inl IntCastingNaNError"

text \<open>
  Rounding to binary64, to nearest with ties to even: a number is rounded to a multiple
  of \<open>2 powi q\<close>, where \<open>q\<close> leaves 53 significant bits and is not below the
  exponent \<open>-1074\<close> of the subnormal numbers; a result of magnitude \<open>2 powi 1024\<close> or
  more is an infinity.
\<close>

definition round64 :: "real \<Rightarrow> num" where
  "round64 x =
     (if x = 0 then Fin 0
      else (let q = max (\<lfloor>log 2 \<bar>x\<bar>\<rfloor> - 52) (- 1074);
                y = real_of_int (round_half_even (x / 2 powi q)) * 2 powi q
            in if \<bar>y\<bar> \<ge> 2 powi 1024 then (if x > 0 then PInf else NInf) else Fin y))"

fun rnd :: "num \<Rightarrow> num" where
  "rnd (Fin x) = round64 x"
| "rnd x = x"

definition fadd64 :: "num \<Rightarrow> num \<Rightarrow> num" where
  "fadd64 a b = rnd (fadd a b)"

definition fsub64 :: "num \<Rightarrow> num \<Rightarrow> num" where
  "fsub64 a b = rnd (fsub a b)"

definition fmul64 :: "num \<Rightarrow> num \<Rightarrow> num" where
  "fmul64 a b = rnd (fmul a b)"

definition fdiv64 :: "num \<Rightarrow> num \<Rightarrow> num" where
  "fdiv64 a b = rnd (fdiv a b)"

section \<open>The catalog record\<close>

text \<open>
  Text is a Python \<open>str\<close>: a sequence of Unicode code points. A frame is the list of
  its rows in index order; the nine catalog columns are the fields of a row. A text cell
  or the stock flag can be missing (\<open>None\<close>); a missing number is \<open>NaN\<close>.
\<close>

type_synonym pystr = "nat list"

definition py :: "string \<Rightarrow> pystr" where
  "py s = map of_char s"

record product =
  category :: "pystr option"
  name :: "pystr option"
  mrp :: num
  discount_percent :: num
  available_quantity :: num
  discounted_selling_price :: num
  weight_in_gms :: num
  out_of_stock :: "bool option"
  quantity :: num

section \<open>The rule engine: \<open>DataProcessor.validate_business_rules\<close>\<close>

text \<open>The count in a message is printed in decimal by the f-string.\<close>

fun str_nat :: "nat \<Rightarrow> string" where
  "str_nat n =
     (if n < 10 then [''0123456789'' ! n]
      else str_nat (n div 10) @ [''0123456789'' ! (n mod 10)])"

declare str_nat.simps [simp del]

text \<open>Rule 1: \<open>invalid_pricing = valid_df['mrp'] < valid_df['discounted_selling_price']\<close>.\<close>

definition invalid_pricing :: "product \<Rightarrow> bool" where
  "invalid_pricing r = flt (mrp r) (discounted_selling_price r)"

definition rule1 :: "product list \<Rightarrow> product list \<times> string list" where
  "rule1 df =
     (if list_ex invalid_pricing df
      then (filter (\<lambda>r. \<not> invalid_pricing r) df,
            [''Removed '' @ str_nat (length (filter invalid_pricing df))
               @ '' products with MRP < Selling Price''])
      else (df, []))"

text \<open>
  Rule 2: the temporary column \<open>calculated_discount\<close>, computed as
  \<open>((mrp - discounted_selling_price) / mrp) * 100\<close> in float64, the mask
  \<open>discount_mismatch\<close> and the assignment of the rounded value to the masked rows.
  The right-hand side \<open>.round().astype(int)\<close> is evaluated on the masked rows only,
  and raises if one of them is not finite.
\<close>

definition calculated_discount :: "product \<Rightarrow> num" where
  "calculated_discount r =
     fmul64 (fdiv64 (fsub64 (mrp r) (discounted_selling_price r)) (mrp r)) (Fin 100)"

definition discount_mismatch :: "product \<Rightarrow> bool" where
  "discount_mismatch r =
     fgt (fabs (fsub64 (discount_percent r) (calculated_discount r))) (Fin 1)"

fun fix_discounts :: "product list \<Rightarrow> error + product list" where
  "fix_discounts [] = Inr []"
| "fix_discounts (r # rs) =
     (if discount_mismatch r
      then (case round_astype_int (calculated_discount r) of
              Inl e \<Rightarrow> Inl e
            | Inr d \<Rightarrow>
                (case fix_discounts rs of
                   Inl e \<Rightarrow> Inl e
                 | Inr rs' \<Rightarrow> Inr (r\<lparr>discount_percent := Fin (of_int d)\<rparr> # rs')))
      else (case fix_discounts rs of
              Inl e \<Rightarrow> Inl e
            | Inr rs' \<Rightarrow> Inr (r # rs')))"

definition rule2 :: "product list \<Rightarrow> error + product list \<times> string list" where
  "rule2 df =
     (if list_ex discount_mismatch df
      then (case fix_discounts df of
              Inl e \<Rightarrow> Inl e
            | Inr df' \<Rightarrow>
                Inr (df', [''Fixed '' @ str_nat (length (filter discount_mismatch df))
                             @ '' products with incorrect discount percentages'']))
      else Inr (df, []))"

text \<open>Rule 3: an out-of-stock product with a positive quantity gets quantity 0.\<close>

definition invalid_stock :: "product \<Rightarrow> bool" where
  "invalid_stock r = (out_of_stock r = Some True \<and> fgt (available_quantity r) (Fin 0))"

definition rule3 :: "product list \<Rightarrow> product list \<times> string list" where
  "rule3 df =
     (if list_ex invalid_stock df
      then (map (\<lambda>r. if invalid_stock r then r\<lparr>available_quantity := Fin 0\<rparr> else r) df,
            [''Fixed '' @ str_nat (length (filter invalid_stock df))
               @ '' out-of-stock products with non-zero availability''])
      else (df, []))"

text \<open>Rule 4: a product with quantity 0 that is not flagged gets the flag.\<close>

definition zero_quantity :: "product \<Rightarrow> bool" where
  "zero_quantity r = (feq (available_quantity r) (Fin 0) \<and> out_of_stock r = Some False)"

definition rule4 :: "product list \<Rightarrow> product list \<times> string list" where
  "rule4 df =
     (if list_ex zero_quantity df
      then (map (\<lambda>r. if zero_quantity r then r\<lparr>out_of_stock := Some True\<rparr> else r) df,
            [''Marked '' @ str_nat (length (filter zero_quantity df))
               @ '' zero-quantity products as out of stock''])
      else (df, []))"

definition validate_business_rules ::
  "product list \<Rightarrow> error + product list \<times> string list" where
  "validate_business_rules df =
     (let (v1, m1) = rule1 df
      in case rule2 v1 of
           Inl e \<Rightarrow> Inl e
         | Inr (v2, m2) \<Rightarrow>
             (let (v3, m3) = rule3 v2;
                  (v4, m4) = rule4 v3
              in Inr (v4, m1 @ m2 @ m3 @ m4)))"

text \<open>
  What the three repairs do to one row, for stating the properties below: the code's
  masked assignments change exactly the masked rows.
\<close>

definition repair_discount :: "product \<Rightarrow> product" where
  "repair_discount r =
     (if discount_mismatch r
      then (case calculated_discount r of
              Fin c \<Rightarrow> r\<lparr>discount_percent := Fin (of_int (round_half_even c))\<rparr>
            | _ \<Rightarrow> r)
      else r)"

definition repair_stock :: "product \<Rightarrow> product" where
  "repair_stock r = (if invalid_stock r then r\<lparr>available_quantity := Fin 0\<rparr> else r)"

definition repair_flag :: "product \<Rightarrow> product" where
  "repair_flag r = (if zero_quantity r then r\<lparr>out_of_stock := Some True\<rparr> else r)"

text \<open>
  A row is cleaned when none of the four masks selects it; \<open>repair\<close> is the three
  repairs in the order of the rules.
\<close>

definition cleaned :: "product \<Rightarrow> bool" where
  "cleaned r = (\<not> invalid_pricing r \<and> \<not> discount_mismatch r \<and> \<not> invalid_stock r \<and> \<not> zero_quantity r)"

definition repair :: "product \<Rightarrow> product" where
  "repair r = repair_flag (repair_stock (repair_discount r))"

text \<open>
  Two rows that agree on every column other than the three the rules may assign:
  \<open>discount_percent\<close>, \<open>available_quantity\<close> and \<open>out_of_stock\<close>.
\<close>

definition same_but_repaired :: "product \<Rightarrow> product \<Rightarrow> bool" where
  "same_but_repaired r r' =
     (r' = r\<lparr>discount_percent := discount_percent r',
            available_quantity := available_quantity r',
            out_of_stock := out_of_stock r'\<rparr>)"

text \<open>Scenario rows A and B of the specification, with the unnamed columns filled in.\<close>

definition example_row_A :: product where
  "example_row_A =
     \<lparr>category = Some (py ''Snacks''), name = Some (py ''Chips''), mrp = Fin 1000,
      discount_percent = Fin 10, available_quantity = Fin 5,
      discounted_selling_price = Fin 1200, weight_in_gms = Fin 50,
      out_of_stock = Some False, quantity = Fin 1\<rparr>"

definition example_row_B :: product where
  "example_row_B =
     \<lparr>category = Some (py ''Snacks''), name = Some (py ''Chips''), mrp = Fin 1000,
      discount_percent = Fin 5, available_quantity = Fin 5,
      discounted_selling_price = Fin 800, weight_in_gms = Fin 50,
      out_of_stock = Some False, quantity = Fin 1\<rparr>"

text \<open>
  A flagged row with a negative quantity, as a CSV cell \<open>-5\<close> gives; a row with a
  missing \<open>mrp\<close>; a row with \<open>mrp\<close> 0 and a negative price; and a row whose
  calculated discount is not the exact quotient.
\<close>

definition example_negative_stock :: product where
  "example_negative_stock =
     \<lparr>category = Some (py ''Snacks''), name = Some (py ''Chips''), mrp = Fin 1000,
      discount_percent = Fin 50, available_quantity = Fin (- 5),
      discounted_selling_price = Fin 500, weight_in_gms = Fin 50,
      out_of_stock = Some True, quantity = Fin 1\<rparr>"

definition example_missing_mrp :: product where
  "example_missing_mrp =
     \<lparr>category = Some (py ''Snacks''), name = Some (py ''Chips''), mrp = NaN,
      discount_percent = Fin 20, available_quantity = Fin 5,
      discounted_selling_price = Fin 800, weight_in_gms = Fin 50,
      out_of_stock = Some False, quantity = Fin 1\<rparr>"

definition example_zero_mrp :: product where
  "example_zero_mrp =
     \<lparr>category = Some (py ''Snacks''), name = Some (py ''Chips''), mrp = Fin 0,
      discount_percent = Fin 10, available_quantity = Fin 5,
      discounted_selling_price = Fin (- 5), weight_in_gms = Fin 50,
      out_of_stock = Some False, quantity = Fin 1\<rparr>"

definition example_inexact :: product where
  "example_inexact =
     \<lparr>category = Some (py ''Snacks''), name = Some (py ''Chips''), mrp = Fin 200,
      discount_percent = Fin 10, available_quantity = Fin 5,
      discounted_selling_price = Fin 85, weight_in_gms = Fin 50,
      out_of_stock = Some False, quantity = Fin 1\<rparr>"


section \<open>The normalizer: \<open>ZeptoETLPipeline.transform_data\<close>\<close>

text \<open>
  A row as \<open>extract_data\<close> delivers it, under the CSV's column names. A cell of a
  numeric column is a number (an empty cell is NaN) or, where the column could not be
  read as numbers, text; the flag is a boolean, text or missing; the two text columns
  hold text. A frame that lacks one of the nine columns (a \<open>KeyError\<close>) is outside the
  model.
\<close>

datatype raw_num = Number num | Text pystr

datatype raw_flag = FlagBool bool | FlagText pystr | FlagMissing

record raw_row =
  raw_Category :: pystr
  raw_name :: pystr
  raw_mrp :: raw_num
  raw_discountPercent :: raw_num
  raw_availableQuantity :: raw_num
  raw_discountedSellingPrice :: raw_num
  raw_weightInGms :: raw_num
  raw_outOfStock :: raw_flag
  raw_quantity :: raw_num

text \<open>
  \<open>pd.to_numeric(..., errors='coerce')\<close>: a number stays, text is parsed, and text
  that is not a number becomes NaN. The parser of pandas is a parameter.
\<close>

fun to_numeric :: "(pystr \<Rightarrow> num) \<Rightarrow> raw_num \<Rightarrow> num" where
  "to_numeric parse (Number x) = x"
| "to_numeric parse (Text s) = parse s"

text \<open>The mapping \<open>{'TRUE': True, 'FALSE': False, True: True, False: False}\<close>.\<close>

fun map_flag :: "raw_flag \<Rightarrow> bool option" where
  "map_flag (FlagBool b) = Some b"
| "map_flag (FlagText s) =
     (if s = py ''TRUE'' then Some True else if s = py ''FALSE'' then Some False else None)"
| "map_flag FlagMissing = None"

text \<open>\<open>str.strip()\<close> removes the white space of \<open>str.isspace\<close> at both ends.\<close>

definition isspace :: "nat \<Rightarrow> bool" where
  "isspace c =
     ((9 \<le> c \<and> c \<le> 13) \<or> (28 \<le> c \<and> c \<le> 32) \<or> c = 133 \<or> c = 160 \<or> c = 5760 \<or>
      (8192 \<le> c \<and> c \<le> 8202) \<or> c = 8232 \<or> c = 8233 \<or> c = 8239 \<or> c = 8287 \<or>
      c = 12288)"

definition strip :: "pystr \<Rightarrow> pystr" where
  "strip s = rev (dropWhile isspace (rev (dropWhile isspace s)))"

definition convert :: "(pystr \<Rightarrow> num) \<Rightarrow> raw_row \<Rightarrow> product" where
  "convert parse raw =
     \<lparr>category = Some (strip (raw_Category raw)),
      name = Some (strip (raw_name raw)),
      mrp = to_numeric parse (raw_mrp raw),
      discount_percent = to_numeric parse (raw_discountPercent raw),
      available_quantity = to_numeric parse (raw_availableQuantity raw),
      discounted_selling_price = to_numeric parse (raw_discountedSellingPrice raw),
      weight_in_gms = to_numeric parse (raw_weightInGms raw),
      out_of_stock = map_flag (raw_outOfStock raw),
      quantity = to_numeric parse (raw_quantity raw)\<rparr>"

text \<open>\<open>dropna(subset=essential_columns)\<close> keeps the rows with all four present.\<close>

definition essential_present :: "product \<Rightarrow> bool" where
  "essential_present r =
     (category r \<noteq> None \<and> name r \<noteq> None \<and> mrp r \<noteq> NaN \<and>
      discounted_selling_price r \<noteq> NaN)"

definition prices_positive :: "product \<Rightarrow> bool" where
  "prices_positive r =
     (fgt (mrp r) (Fin 0) \<and> fgt (discounted_selling_price r) (Fin 0))"

definition discount_in_range :: "product \<Rightarrow> bool" where
  "discount_in_range r =
     (fge (discount_percent r) (Fin 0) \<and> fle (discount_percent r) (Fin 100))"

text \<open>\<open>fillna\<close> replaces a missing value (NaN, not an infinity) by the default.\<close>

definition fillna :: "num \<Rightarrow> num \<Rightarrow> num" where
  "fillna d x = (if x = NaN then d else x)"

definition fill_defaults :: "product \<Rightarrow> product" where
  "fill_defaults r =
     r\<lparr>available_quantity := fillna (Fin 0) (available_quantity r),
       weight_in_gms := fillna (Fin 0) (weight_in_gms r),
       quantity := fillna (Fin 1) (quantity r),
       out_of_stock := (case out_of_stock r of None \<Rightarrow> Some False | Some b \<Rightarrow> Some b)\<rparr>"

definition transform_data :: "(pystr \<Rightarrow> num) \<Rightarrow> raw_row list \<Rightarrow> product list" where
  "transform_data parse df =
     map fill_defaults
       (filter discount_in_range
          (filter prices_positive
             (filter essential_present (map (convert parse) df))))"

text \<open>
  A parser for the examples: it reads an unsigned decimal integer and gives NaN for any
  other text, as the coercing parser of pandas does for text that is not a number
  (pandas reads more forms of numbers than this).
\<close>

definition parse_digits :: "pystr \<Rightarrow> num" where
  "parse_digits s =
     (if s \<noteq> [] \<and> list_all (\<lambda>c. 48 \<le> c \<and> c \<le> 57) s
      then Fin (of_nat (foldl (\<lambda>a c. 10 * a + (c - 48)) 0 s))
      else NaN)"

definition example_raw_missing_discount :: raw_row where
  "example_raw_missing_discount =
     \<lparr>raw_Category = py ''Snacks'', raw_name = py ''Chips'', raw_mrp = Number (Fin 1000),
      raw_discountPercent = Number NaN, raw_availableQuantity = Number (Fin 5),
      raw_discountedSellingPrice = Number (Fin 800), raw_weightInGms = Number (Fin 50),
      raw_outOfStock = FlagBool False, raw_quantity = Number (Fin 1)\<rparr>"

definition example_raw_text_discount :: raw_row where
  "example_raw_text_discount =
     \<lparr>raw_Category = py ''Snacks'', raw_name = py ''Chips'', raw_mrp = Text (py ''1000''),
      raw_discountPercent = Text (py ''n/a''), raw_availableQuantity = Number (Fin 5),
      raw_discountedSellingPrice = Text (py ''800''), raw_weightInGms = Number (Fin 50),
      raw_outOfStock = FlagText (py ''FALSE''), raw_quantity = Number (Fin 1)\<rparr>"

text \<open>
  Three more raw rows: one with a discount of 150, one within range whose quantity
  cell is empty, and the one that becomes \<open>example_negative_stock\<close>.
\<close>

definition example_raw_high_discount :: raw_row where
  "example_raw_high_discount =
     \<lparr>raw_Category = py ''Snacks'', raw_name = py ''Chips'', raw_mrp = Number (Fin 1000),
      raw_discountPercent = Number (Fin 150), raw_availableQuantity = Number (Fin 5),
      raw_discountedSellingPrice = Number (Fin 800), raw_weightInGms = Number (Fin 50),
      raw_outOfStock = FlagBool False, raw_quantity = Number (Fin 1)\<rparr>"

definition example_raw_kept :: raw_row where
  "example_raw_kept =
     \<lparr>raw_Category = py ''Snacks'', raw_name = py ''Chips'', raw_mrp = Number (Fin 1000),
      raw_discountPercent = Number (Fin 20), raw_availableQuantity = Number NaN,
      raw_discountedSellingPrice = Number (Fin 800), raw_weightInGms = Number (Fin 50),
      raw_outOfStock = FlagMissing, raw_quantity = Number (Fin 1)\<rparr>"

definition example_raw_negative_stock :: raw_row where
  "example_raw_negative_stock =
     \<lparr>raw_Category = py ''Snacks'', raw_name = py ''Chips'', raw_mrp = Number (Fin 1000),
      raw_discountPercent = Number (Fin 50), raw_availableQuantity = Number (Fin (- 5)),
      raw_discountedSellingPrice = Number (Fin 500), raw_weightInGms = Number (Fin 50),
      raw_outOfStock = FlagBool True, raw_quantity = Number (Fin 1)\<rparr>"

section \<open>The outlier detector: \<open>DataProcessor.detect_outliers\<close>\<close>

text \<open>
  The detector works on one column, \<open>df[column]\<close>, here the list of its values.
  \<open>Series.quantile\<close> leaves the missing values out, sorts the rest and interpolates
  linearly between the two neighbours of position \<open>(n - 1) * q\<close>, as numpy's
  \<open>percentile\<close> does; of no values it is NaN.
\<close>

fun insert_num :: "num \<Rightarrow> num list \<Rightarrow> num list" where
  "insert_num x [] = [x]"
| "insert_num x (y # ys) = (if flt y x then y # insert_num x ys else x # y # ys)"

definition sort_num :: "num list \<Rightarrow> num list" where
  "sort_num xs = foldr insert_num xs []"

definition dropna :: "num list \<Rightarrow> num list" where
  "dropna col = filter (\<lambda>x. x \<noteq> NaN) col"

definition lerp :: "num \<Rightarrow> num \<Rightarrow> real \<Rightarrow> num" where
  "lerp a b t =
     (if t \<ge> 1 / 2 then fsub b (fmul (fsub b a) (Fin (1 - t)))
      else fadd a (fmul (fsub b a) (Fin t)))"

definition quantile :: "real \<Rightarrow> num list \<Rightarrow> num" where
  "quantile q col =
     (let vals = sort_num (dropna col); n = length vals
      in if n = 0 then NaN
         else (let h = (real n - 1) * q; lo = nat \<lfloor>h\<rfloor>; hi = min (lo + 1) (n - 1)
               in lerp (vals ! lo) (vals ! hi) (h - real lo)))"

text \<open>
  \<open>Series.mean\<close> and \<open>Series.std\<close> leave the missing values out. The mean of no
  values is NaN; the standard deviation (with one degree of freedom removed) of fewer
  than two values is NaN. Both work in float64: the sum is taken in index order with
  every addition rounded (numpy adds a long column in another order, which gives the
  same sum wherever every partial sum is exact), and the quotient, the deviations from
  the average, their squares and the square root are rounded.
\<close>

definition fsum :: "num list \<Rightarrow> num" where
  "fsum xs = foldl fadd64 (Fin 0) xs"

definition mean :: "num list \<Rightarrow> num" where
  "mean col =
     (let vals = dropna col
      in if vals = [] then NaN else fdiv64 (fsum vals) (Fin (real (length vals))))"

fun fsqrt :: "num \<Rightarrow> num" where
  "fsqrt (Fin x) = (if x \<ge> 0 then Fin (sqrt x) else NaN)"
| "fsqrt PInf = PInf"
| "fsqrt _ = NaN"

definition var :: "num list \<Rightarrow> num" where
  "var col =
     (let vals = dropna col; n = length vals
      in if n \<le> 1 then NaN
         else (let avg = fdiv64 (fsum vals) (Fin (real n))
               in fdiv64 (fsum (map (\<lambda>x. fmul64 (fsub64 avg x) (fsub64 avg x)) vals))
                         (Fin (real n - 1))))"

definition std :: "num list \<Rightarrow> num" where
  "std col = rnd (fsqrt (var col))"

definition lower_bound :: "num list \<Rightarrow> num" where
  "lower_bound col =
     (let Q1 = quantile (1 / 4) col; Q3 = quantile (3 / 4) col; IQR = fsub Q3 Q1
      in fsub Q1 (fmul (Fin (3 / 2)) IQR))"

definition upper_bound :: "num list \<Rightarrow> num" where
  "upper_bound col =
     (let Q1 = quantile (1 / 4) col; Q3 = quantile (3 / 4) col; IQR = fsub Q3 Q1
      in fadd Q3 (fmul (Fin (3 / 2)) IQR))"

definition z_scores :: "num list \<Rightarrow> num list" where
  "z_scores col = map (\<lambda>x. fabs (fdiv64 (fsub64 x (mean col)) (std col))) col"

definition detect_outliers :: "num list \<Rightarrow> string \<Rightarrow> error + bool list" where
  "detect_outliers col method =
     (if method = ''iqr''
      then Inr (map (\<lambda>x. flt x (lower_bound col) \<or> fgt x (upper_bound col)) col)
      else if method = ''zscore''
      then Inr (map (\<lambda>z. fgt z (Fin 3)) (z_scores col))
      else Inl (ValueError (''Method must be 'iqr' or 'zscore'' @ [CHR 0x27])))"


section \<open>The quality reporter: \<open>DataProcessor.generate_data_quality_report\<close>\<close>

text \<open>
  The report is taken of a frame with the nine catalog columns, so every test
  \<open>col in df.columns\<close> of the code succeeds. A cell of any column is text, a number
  or the flag; \<open>isnull\<close> holds of a missing text or flag and of NaN.
\<close>

datatype cell = TextCell "pystr option" | NumCell num | FlagCell "bool option"

fun isnull :: "cell \<Rightarrow> bool" where
  "isnull (TextCell t) = (t = None)"
| "isnull (NumCell x) = (x = NaN)"
| "isnull (FlagCell b) = (b = None)"

definition columns :: "string list" where
  "columns =
     [''category'', ''name'', ''mrp'', ''discount_percent'', ''available_quantity'',
      ''discounted_selling_price'', ''weight_in_gms'', ''out_of_stock'', ''quantity'']"

definition cell_of :: "string \<Rightarrow> product \<Rightarrow> cell" where
  "cell_of col r =
     (if col = ''category'' then TextCell (category r)
      else if col = ''name'' then TextCell (name r)
      else if col = ''mrp'' then NumCell (mrp r)
      else if col = ''discount_percent'' then NumCell (discount_percent r)
      else if col = ''available_quantity'' then NumCell (available_quantity r)
      else if col = ''discounted_selling_price'' then NumCell (discounted_selling_price r)
      else if col = ''weight_in_gms'' then NumCell (weight_in_gms r)
      else if col = ''out_of_stock'' then FlagCell (out_of_stock r)
      else NumCell (quantity r))"

definition column :: "string \<Rightarrow> product list \<Rightarrow> cell list" where
  "column col df = map (cell_of col) df"

text \<open>
  \<open>(count / len(df)) * 100\<close> with a numpy count: the division is numpy's, so a count
  of 0 over 0 rows is NaN and no \<open>ZeroDivisionError\<close>. \<open>round(x, 2)\<close> keeps NaN and the
  infinities and rounds a number half to even at the second decimal.
\<close>

definition percentage :: "nat \<Rightarrow> nat \<Rightarrow> num" where
  "percentage count len = fmul (fdiv (Fin (real count)) (Fin (real len))) (Fin 100)"

fun round2 :: "num \<Rightarrow> num" where
  "round2 (Fin x) = Fin (real_of_int (round_half_even (x * 100)) / 100)"
| "round2 x = x"

text \<open>
  \<open>int(x)\<close> truncates a number towards zero and raises on NaN and on an infinity.
  \<open>Series.max\<close> and \<open>Series.min\<close> leave the missing values out and are NaN when
  nothing is left.
\<close>

fun py_int :: "num \<Rightarrow> error + int" where
  "py_int (Fin x) = Inr (if x \<ge> 0 then \<lfloor>x\<rfloor> else \<lceil>x\<rceil>)"
| "py_int NaN = Inl (ValueError ''cannot convert float NaN to integer'')"
| "py_int _ = Inl OverflowError"

definition col_max :: "num list \<Rightarrow> num" where
  "col_max col =
     (case dropna col of [] \<Rightarrow> NaN
      | x # xs \<Rightarrow> foldl (\<lambda>a b. if flt a b then b else a) x xs)"

definition col_min :: "num list \<Rightarrow> num" where
  "col_min col =
     (case dropna col of [] \<Rightarrow> NaN
      | x # xs \<Rightarrow> foldl (\<lambda>a b. if flt b a then b else a) x xs)"

text \<open>
  \<open>nunique\<close> counts the distinct values that are not missing; \<open>value_counts\<close> counts
  each category that is not missing (the pairs are listed here by first occurrence; a
  dict compares without regard to order).
\<close>

definition nunique :: "cell list \<Rightarrow> nat" where
  "nunique cells = length (remdups (filter (\<lambda>c. \<not> isnull c) cells))"

definition value_counts :: "pystr option list \<Rightarrow> (pystr \<times> nat) list" where
  "value_counts cats =
     (let present = map the (filter (\<lambda>c. c \<noteq> None) cats)
      in map (\<lambda>c. (c, count_list present c)) (remdups present))"

record column_share =
  share_count :: int
  share_percentage :: num

record price_statistics =
  avg_mrp :: num
  avg_selling_price :: num
  avg_discount :: num
  max_discount :: int
  min_discount :: int

record report =
  total_rows :: nat
  total_columns :: nat
  missing_values :: "(string \<times> column_share) list"
  data_types :: "(string \<times> string) list"
  unique_counts :: "(string \<times> int) list"
  outliers :: "(string \<times> column_share) list"
  category_distribution :: "(pystr \<times> int) list"
  price_stats :: price_statistics

definition missing_values_of :: "product list \<Rightarrow> (string \<times> column_share) list" where
  "missing_values_of df =
     map (\<lambda>col.
            (let missing_count = length (filter isnull (column col df))
             in (col, \<lparr>share_count = int missing_count,
                       share_percentage = round2 (percentage missing_count (length df))\<rparr>)))
         columns"

definition numeric_column :: "string \<Rightarrow> product list \<Rightarrow> num list" where
  "numeric_column col df =
     (if col = ''mrp'' then map mrp df
      else if col = ''discounted_selling_price'' then map discounted_selling_price df
      else if col = ''discount_percent'' then map discount_percent df
      else map weight_in_gms df)"

fun outliers_of :: "product list \<Rightarrow> string list \<Rightarrow> error + (string \<times> column_share) list" where
  "outliers_of df [] = Inr []"
| "outliers_of df (col # cols) =
     (case detect_outliers (numeric_column col df) ''iqr'' of
        Inl e \<Rightarrow> Inl e
      | Inr flagged \<Rightarrow>
          (case outliers_of df cols of
             Inl e \<Rightarrow> Inl e
           | Inr rest \<Rightarrow>
               (let n = length (filter (\<lambda>b. b) flagged)
                in Inr ((col, \<lparr>share_count = int n,
                               share_percentage = round2 (percentage n (length df))\<rparr>)
                        # rest))))"

definition price_statistics_of :: "product list \<Rightarrow> error + price_statistics" where
  "price_statistics_of df =
     (case py_int (col_max (map discount_percent df)) of
        Inl e \<Rightarrow> Inl e
      | Inr mx \<Rightarrow>
          (case py_int (col_min (map discount_percent df)) of
             Inl e \<Rightarrow> Inl e
           | Inr mn \<Rightarrow>
               Inr \<lparr>avg_mrp = round2 (mean (map mrp df)),
                    avg_selling_price = round2 (mean (map discounted_selling_price df)),
                    avg_discount = round2 (mean (map discount_percent df)),
                    max_discount = mx, min_discount = mn\<rparr>))"

text \<open>
  The dtype names pandas prints are not determined by the values modelled here; they
  are a parameter.
\<close>

definition generate_data_quality_report ::
  "(string \<Rightarrow> string) \<Rightarrow> product list \<Rightarrow> error + report" where
  "generate_data_quality_report dtype df =
     (case outliers_of df [''mrp'', ''discounted_selling_price'', ''discount_percent'',
                           ''weight_in_gms''] of
        Inl e \<Rightarrow> Inl e
      | Inr outs \<Rightarrow>
          (case price_statistics_of df of
             Inl e \<Rightarrow> Inl e
           | Inr stats \<Rightarrow>
               Inr \<lparr>total_rows = length df,
                    total_columns = length columns,
                    missing_values = missing_values_of df,
                    data_types = map (\<lambda>col. (col, dtype col)) columns,
                    unique_counts = map (\<lambda>col. (col, int (nunique (column col df)))) columns,
                    outliers = outs,
                    category_distribution =
                      map (\<lambda>(c, n). (c, int n)) (value_counts (map category df)),
                    price_stats = stats\<rparr>))"

section \<open>The currency cleaner: \<open>DataProcessor.clean_currency_values\<close>\<close>

text \<open>
  The cleaner is given the names of the columns to clean, so here a frame is the list of
  its named columns, each the list of its cells. \<open>df[col]\<close> reads a column and
  \<open>df[col] = values\<close> replaces it where it stands (or adds it at the end under a
  new name).
\<close>

type_synonym frame = "(string \<times> cell list) list"

definition has_column :: "frame \<Rightarrow> string \<Rightarrow> bool" where
  "has_column df col = (map_of df col \<noteq> None)"

definition get_col :: "frame \<Rightarrow> string \<Rightarrow> cell list" where
  "get_col df col = the (map_of df col)"

definition set_col :: "string \<Rightarrow> cell list \<Rightarrow> frame \<Rightarrow> frame" where
  "set_col col cells df =
     (if has_column df col
      then map (\<lambda>(k, v). if k = col then (k, cells) else (k, v)) df
      else df @ [(col, cells)])"

text \<open>
  \<open>astype(str)\<close> and the parser of \<open>pd.to_numeric\<close> belong to pandas and are
  parameters. \<open>str.replace(c, '')\<close> with a one-character pattern removes every
  occurrence of the character; the rupee sign is U+20B9 and the comma U+002C.
\<close>

definition rupee :: nat where
  "rupee = 8377"

definition comma :: nat where
  "comma = 44"

definition str_remove :: "nat \<Rightarrow> pystr \<Rightarrow> pystr" where
  "str_remove c s = filter (\<lambda>x. x \<noteq> c) s"

definition strip_currency :: "(cell \<Rightarrow> pystr) \<Rightarrow> cell \<Rightarrow> cell" where
  "strip_currency astype_str c =
     TextCell (Some (str_remove comma (str_remove rupee (astype_str c))))"

fun to_numeric_cell :: "(pystr \<Rightarrow> num) \<Rightarrow> cell \<Rightarrow> cell" where
  "to_numeric_cell parse (TextCell (Some s)) = NumCell (parse s)"
| "to_numeric_cell parse (NumCell x) = NumCell x"
| "to_numeric_cell parse _ = NumCell NaN"

fun cell_num :: "cell \<Rightarrow> num" where
  "cell_num (NumCell x) = x"
| "cell_num _ = NaN"

definition times_100 :: "cell \<Rightarrow> cell" where
  "times_100 c = NumCell (fmul (cell_num c) (Fin 100))"

fun clean_currency_values ::
  "(cell \<Rightarrow> pystr) \<Rightarrow> (pystr \<Rightarrow> num) \<Rightarrow> frame \<Rightarrow> string list \<Rightarrow> frame" where
  "clean_currency_values astype_str parse df [] = df"
| "clean_currency_values astype_str parse df (col # cols) =
     (if has_column df col
      then (let df1 = set_col col (map (strip_currency astype_str) (get_col df col)) df;
                df2 = set_col col (map (to_numeric_cell parse) (get_col df1 col)) df1
            in if fgt (mean (map cell_num (get_col df2 col))) (Fin 100)
               then clean_currency_values astype_str parse df2 cols
               else clean_currency_values astype_str parse
                      (set_col col (map times_100 (get_col df2 col)) df2) cols)
      else clean_currency_values astype_str parse df cols)"

text \<open>The numbers a column holds after the symbols are removed and the text is parsed.\<close>

definition parsed_column :: "(cell \<Rightarrow> pystr) \<Rightarrow> (pystr \<Rightarrow> num) \<Rightarrow> cell list \<Rightarrow> num list" where
  "parsed_column astype_str parse cells =
     map (\<lambda>c. parse (str_remove comma (str_remove rupee (astype_str c)))) cells"

text \<open>For the examples: text cells print as themselves.\<close>

fun text_of_cell :: "cell \<Rightarrow> pystr" where
  "text_of_cell (TextCell (Some s)) = s"
| "text_of_cell _ = py ''nan''"

definition example_prices :: frame where
  "example_prices =
     [(''mrp'', [TextCell (Some (rupee # py ''50'')), TextCell (Some (py ''1,50''))]),
      (''discounted_selling_price'',
       [TextCell (Some (rupee # py ''250'')), TextCell (Some (py ''50''))])]"

section \<open>The category standardizer: \<open>DataProcessor.standardize_category_names\<close>\<close>

definition category_mapping :: "(pystr \<times> pystr) list" where
  "category_mapping =
     [(py ''Fruits & Vegetables'', py ''Fruits & Vegetables''),
      (py ''Fruits and Vegetables'', py ''Fruits & Vegetables''),
      (py ''Fruits&Vegetables'', py ''Fruits & Vegetables''),
      (py ''Cooking Essentials'', py ''Cooking Essentials''),
      (py ''CookingEssentials'', py ''Cooking Essentials''),
      (py ''Cooking essentials'', py ''Cooking Essentials'')]"

text \<open>\<open>.str.strip()\<close> and \<open>.replace(category_mapping)\<close> leave a missing category missing.\<close>

definition strip_category :: "product \<Rightarrow> product" where
  "strip_category r = r\<lparr>category := map_option strip (category r)\<rparr>"

definition replace_category :: "product \<Rightarrow> product" where
  "replace_category r =
     r\<lparr>category :=
         map_option (\<lambda>c. case map_of category_mapping c of Some c' \<Rightarrow> c' | None \<Rightarrow> c)
           (category r)\<rparr>"

definition standardize_category_names :: "product list \<Rightarrow> product list" where
  "standardize_category_names df = map replace_category (map strip_category df)"

section \<open>The enrichment: \<open>DataProcessor.enrich_data\<close>\<close>

text \<open>
  Enrichment adds columns to the catalog columns, so its frame is the catalog rows
  together with the added columns. \<open>pd.cut\<close> puts a value in the bin
  \<open>(lo, hi]\<close> that holds it and gives a missing label to a value in no bin.
\<close>

record eframe =
  base :: "product list"
  added :: frame

fun cut :: "num list \<Rightarrow> pystr list \<Rightarrow> num \<Rightarrow> cell" where
  "cut (lo # hi # bins) (l # labels) x =
     (if flt lo x \<and> fle x hi then TextCell (Some l) else cut (hi # bins) labels x)"
| "cut _ _ x = TextCell None"

definition weight_labels :: "pystr list" where
  "weight_labels =
     [py ''Very Light (<100g)'', py ''Light (100-500g)'', py ''Medium (500g-1kg)'',
      py ''Heavy (1-5kg)'', py ''Very Heavy (>5kg)'']"

definition price_labels :: "pystr list" where
  "price_labels =
     [py ''Budget (<'' @ [rupee] @ py ''10)'',
      py ''Affordable ('' @ [rupee] @ py ''10-50)'',
      py ''Mid-range ('' @ [rupee] @ py ''50-100)'',
      py ''Premium ('' @ [rupee] @ py ''100-500)'',
      py ''Luxury (>'' @ [rupee] @ py ''500)'']"

definition discount_labels :: "pystr list" where
  "discount_labels =
     [py ''Minimal (0-5%)'', py ''Low (5-15%)'', py ''Medium (15-25%)'',
      py ''High (25-50%)'', py ''Very High (50%+)'']"

definition add_savings_amount :: "eframe \<Rightarrow> eframe" where
  "add_savings_amount f =
     f\<lparr>added := set_col ''savings_amount''
                   (map (\<lambda>r. NumCell (fsub64 (mrp r) (discounted_selling_price r))) (base f))
                   (added f)\<rparr>"

definition add_price_per_gram :: "eframe \<Rightarrow> eframe" where
  "add_price_per_gram f =
     f\<lparr>added := set_col ''price_per_gram''
                   (map (\<lambda>r. NumCell (fdiv64 (discounted_selling_price r) (weight_in_gms r)))
                      (base f))
                   (added f)\<rparr>"

definition replace_infinite :: "cell \<Rightarrow> cell" where
  "replace_infinite c = (if c = NumCell PInf \<or> c = NumCell NInf then NumCell (Fin 0) else c)"

definition fix_price_per_gram :: "eframe \<Rightarrow> eframe" where
  "fix_price_per_gram f =
     f\<lparr>added := set_col ''price_per_gram''
                   (map replace_infinite (get_col (added f) ''price_per_gram''))
                   (added f)\<rparr>"

definition add_weight_category :: "eframe \<Rightarrow> eframe" where
  "add_weight_category f =
     f\<lparr>added := set_col ''weight_category''
                   (map (\<lambda>r. cut [Fin 0, Fin 100, Fin 500, Fin 1000, Fin 5000, PInf]
                                 weight_labels (weight_in_gms r)) (base f))
                   (added f)\<rparr>"

definition add_price_category :: "eframe \<Rightarrow> eframe" where
  "add_price_category f =
     f\<lparr>added := set_col ''price_category''
                   (map (\<lambda>r. cut [Fin 0, Fin 1000, Fin 5000, Fin 10000, Fin 50000, PInf]
                                 price_labels (discounted_selling_price r)) (base f))
                   (added f)\<rparr>"

definition add_discount_category :: "eframe \<Rightarrow> eframe" where
  "add_discount_category f =
     f\<lparr>added := set_col ''discount_category''
                   (map (\<lambda>r. cut [Fin 0, Fin 5, Fin 15, Fin 25, Fin 50, Fin 100]
                                 discount_labels (discount_percent r)) (base f))
                   (added f)\<rparr>"

definition enrich_data :: "eframe \<Rightarrow> eframe" where
  "enrich_data df =
     add_discount_category
       (add_price_category
          (add_weight_category
             (fix_price_per_gram (add_price_per_gram (add_savings_amount df)))))"

section \<open>The transformations on a store of frames\<close>

text \<open>
  A frame is an object: the caller and the function hold references to it, and an
  assignment to a column changes the object for every holder. The store is the list of
  the frames that exist, a reference is a position in it. \<open>df.copy()\<close> and every
  operation that returns a new frame put a frame at the end; an assignment to a column
  or to \<open>.loc\<close> replaces the frame at the reference.
\<close>

type_synonym 'f heap = "'f list"

definition frame_copy :: "'f heap \<Rightarrow> nat \<Rightarrow> 'f heap \<times> nat" where
  "frame_copy h a = (h @ [h ! a], length h)"

definition frame_new :: "'f heap \<Rightarrow> 'f \<Rightarrow> 'f heap \<times> nat" where
  "frame_new h v = (h @ [v], length h)"

definition frame_store :: "'f heap \<Rightarrow> nat \<Rightarrow> 'f \<Rightarrow> 'f heap" where
  "frame_store h a v = h[a := v]"

fun clean_loop_h ::
  "(cell \<Rightarrow> pystr) \<Rightarrow> (pystr \<Rightarrow> num) \<Rightarrow> frame heap \<Rightarrow> nat \<Rightarrow> string list \<Rightarrow> frame heap"
where
  "clean_loop_h astype_str parse h c [] = h"
| "clean_loop_h astype_str parse h c (col # cols) =
     (if has_column (h ! c) col
      then (let h1 = frame_store h c
                       (set_col col (map (strip_currency astype_str) (get_col (h ! c) col))
                          (h ! c));
                h2 = frame_store h1 c
                       (set_col col (map (to_numeric_cell parse) (get_col (h1 ! c) col))
                          (h1 ! c))
            in if fgt (mean (map cell_num (get_col (h2 ! c) col))) (Fin 100)
               then clean_loop_h astype_str parse h2 c cols
               else clean_loop_h astype_str parse
                      (frame_store h2 c
                         (set_col col (map times_100 (get_col (h2 ! c) col)) (h2 ! c)))
                      c cols)
      else clean_loop_h astype_str parse h c cols)"

definition clean_currency_values_h ::
  "(cell \<Rightarrow> pystr) \<Rightarrow> (pystr \<Rightarrow> num) \<Rightarrow> frame heap \<Rightarrow> nat \<Rightarrow> string list
     \<Rightarrow> frame heap \<times> nat" where
  "clean_currency_values_h astype_str parse h df cols =
     (let (h1, cleaned_df) = frame_copy h df
      in (clean_loop_h astype_str parse h1 cleaned_df cols, cleaned_df))"

definition standardize_category_names_h ::
  "product list heap \<Rightarrow> nat \<Rightarrow> product list heap \<times> nat" where
  "standardize_category_names_h h df =
     (let (h1, cleaned_df) = frame_copy h df;
          h2 = frame_store h1 cleaned_df (map strip_category (h1 ! cleaned_df));
          h3 = frame_store h2 cleaned_df (map replace_category (h2 ! cleaned_df))
      in (h3, cleaned_df))"

definition enrich_data_h :: "eframe heap \<Rightarrow> nat \<Rightarrow> eframe heap \<times> nat" where
  "enrich_data_h h df =
     (let (h1, enriched_df) = frame_copy h df;
          h2 = frame_store h1 enriched_df (add_savings_amount (h1 ! enriched_df));
          h3 = frame_store h2 enriched_df (add_price_per_gram (h2 ! enriched_df));
          h4 = frame_store h3 enriched_df (fix_price_per_gram (h3 ! enriched_df));
          h5 = frame_store h4 enriched_df (add_weight_category (h4 ! enriched_df));
          h6 = frame_store h5 enriched_df (add_price_category (h5 ! enriched_df));
          h7 = frame_store h6 enriched_df (add_discount_category (h6 ! enriched_df))
      in (h7, enriched_df))"

text \<open>
  In the rule engine \<open>valid_df[~invalid_pricing]\<close> and \<open>valid_df.drop(...)\<close> return
  new frames, to which \<open>valid_df\<close> is then bound; the temporary column and the three
  \<open>.loc\<close> assignments write to the frame \<open>valid_df\<close> refers to. The temporary
  column is not one of the nine catalog columns: adding it writes to the frame and
  leaves the nine as they are, and dropping it gives a new frame with the nine.
\<close>

definition rule1_h :: "product list heap \<Rightarrow> nat \<Rightarrow> product list heap \<times> nat \<times> string list" where
  "rule1_h h v =
     (if list_ex invalid_pricing (h ! v)
      then (let (h', v') = frame_new h (fst (rule1 (h ! v))) in (h', v', snd (rule1 (h ! v))))
      else (h, v, []))"

definition rule2_h ::
  "product list heap \<Rightarrow> nat \<Rightarrow> product list heap \<times> (error + string list)" where
  "rule2_h h v =
     (let h1 = frame_store h v (h ! v)
      in if list_ex discount_mismatch (h1 ! v)
         then (case rule2 (h1 ! v) of
                 Inl e \<Rightarrow> (h1, Inl e)
               | Inr (fixed, m) \<Rightarrow> (frame_store h1 v fixed, Inr m))
         else (h1, Inr []))"

definition rule3_h :: "product list heap \<Rightarrow> nat \<Rightarrow> product list heap \<times> string list" where
  "rule3_h h v =
     (if list_ex invalid_stock (h ! v)
      then (frame_store h v (fst (rule3 (h ! v))), snd (rule3 (h ! v)))
      else (h, []))"

definition rule4_h :: "product list heap \<Rightarrow> nat \<Rightarrow> product list heap \<times> string list" where
  "rule4_h h v =
     (if list_ex zero_quantity (h ! v)
      then (frame_store h v (fst (rule4 (h ! v))), snd (rule4 (h ! v)))
      else (h, []))"

text \<open>
  The store after the call is returned also when the call raises, beside the error.
\<close>

definition validate_business_rules_h ::
  "product list heap \<Rightarrow> nat \<Rightarrow> product list heap \<times> (error + nat \<times> string list)" where
  "validate_business_rules_h h df =
     (let (h0, valid_df) = frame_copy h df;
          (h1, v1, m1) = rule1_h h0 valid_df
      in case rule2_h h1 v1 of
           (h2, Inl e) \<Rightarrow> (h2, Inl e)
         | (h2, Inr m2) \<Rightarrow>
             (let (h3, v3) = frame_new h2 (h2 ! v1);
                  (h4, m3) = rule3_h h3 v3;
                  (h5, m4) = rule4_h h4 v3
              in (h5, Inr (v3, m1 @ m2 @ m3 @ m4))))"

text \<open>A store extends another when every frame of the other is in it, unchanged.\<close>

definition unchanged :: "'f heap \<Rightarrow> 'f heap \<Rightarrow> bool" where
  "unchanged h h' = (take (length h) h' = h)"

section \<open>Properties of the rule engine\<close>

subsection \<open>Rounding to binary64\<close>

lemma round_half_even_of_int [simp]: "round_half_even (of_int n) = n"
  by (simp add: round_half_even_def)

lemma round_half_even_le: "y \<le> of_int n \<Longrightarrow> round_half_even y \<le> n"
  unfolding round_half_even_def Let_def
  by (auto split: if_splits) linarith+

lemma round_half_even_ge: "of_int n \<le> y \<Longrightarrow> n \<le> round_half_even y"
  unfolding round_half_even_def Let_def
  by (auto split: if_splits) linarith+

lemma round_half_even_close: "\<bar>of_int (round_half_even x) - x\<bar> \<le> 1 / 2"
  unfolding round_half_even_def Let_def by (auto simp: abs_if) linarith+

lemma powi_powr: "(2::real) powi k = 2 powr (real_of_int k)"
  by (simp add: powr_real_of_int power_int_def field_simps)

lemma floor_log2_eq:
  assumes "0 < x" "2 powi e \<le> x" "x < 2 powi (e + 1)"
  shows "\<lfloor>log 2 x\<rfloor> = e"
  using assms by (subst floor_log_eq_powr_iff) (simp_all add: powi_powr)

lemma floor_log2_le:
  assumes "0 < x" "x \<le> 2 powi k"
  shows "\<lfloor>log 2 x\<rfloor> \<le> k"
proof -
  have "log 2 x \<le> real_of_int k"
    using assms by (simp add: le_log_iff log_le_iff powi_powr)
  then show ?thesis by (simp add: floor_le_iff)
qed

lemma floor_log2_less:
  assumes "0 < x" "x < 2 powi k"
  shows "\<lfloor>log 2 x\<rfloor> < k"
proof -
  have "log 2 x < real_of_int k"
    using assms by (simp add: log_less_iff powi_powr)
  then show ?thesis by (simp add: floor_less_iff)
qed

text \<open>Evaluating \<open>round64\<close> at a number whose binary exponent \<open>e\<close> is given.\<close>

lemma round64_eval:
  assumes "x \<noteq> 0" "2 powi e \<le> \<bar>x\<bar>" "\<bar>x\<bar> < 2 powi (e + 1)"
    and "q = max (e - 52) (- 1074)"
    and "y = real_of_int (round_half_even (x / 2 powi q)) * 2 powi q"
    and "\<bar>y\<bar> < 2 powi 1024"
  shows "round64 x = Fin y"
proof -
  have "\<lfloor>log 2 \<bar>x\<bar>\<rfloor> = e" using assms(1-3) by (intro floor_log2_eq) auto
  then show ?thesis using assms(1,4,5,6) by (simp add: round64_def Let_def)
qed

text \<open>A number with at most 53 significant bits in the range of binary64 is kept.\<close>

lemma round64_exact:
  assumes "x = real_of_int k * 2 powi j" "\<bar>k\<bar> < 2 ^ 53" "- 1074 \<le> j" "j \<le> 971"
  shows "round64 x = Fin x"
proof (cases "x = 0")
  case True
  then show ?thesis by (simp add: round64_def)
next
  case False
  define q where "q = max (\<lfloor>log 2 \<bar>x\<bar>\<rfloor> - 52) (- 1074)"
  have p: "(0::real) < 2 powi j" by simp
  have "\<bar>x\<bar> = \<bar>real_of_int k\<bar> * 2 powi j" unfolding assms(1) by (simp add: abs_mult)
  also have "\<dots> < 2 ^ 53 * 2 powi j"
  proof -
    have "\<bar>real_of_int k\<bar> < 2 ^ 53"
      using assms(2) by (metis of_int_abs of_int_less_numeral_power_cancel_iff)
    then show ?thesis using p by simp
  qed
  also have "\<dots> = 2 powi (53 + j)" by (simp add: power_int_add)
  finally have lt: "\<bar>x\<bar> < 2 powi (53 + j)" .
  then have "\<lfloor>log 2 \<bar>x\<bar>\<rfloor> < 53 + j" using False by (intro floor_log2_less) auto
  then have qj: "q \<le> j" using assms(3) unfolding q_def by simp
  have xq: "x / 2 powi q = real_of_int (k * 2 ^ nat (j - q))"
  proof -
    have "2 powi j = (2::real) powi (j - q) * 2 powi q"
      by (simp add: power_int_add[symmetric])
    moreover have "(2::real) powi (j - q) = 2 ^ nat (j - q)"
      using qj by (simp add: power_int_def)
    ultimately show ?thesis unfolding assms(1) by simp
  qed
  have y: "real_of_int (round_half_even (x / 2 powi q)) * 2 powi q = x"
    unfolding xq round_half_even_of_int using xq by (simp add: field_simps)
  have "(2::real) powi (53 + j) \<le> 2 powi 1024"
    using assms(4) by (intro power_int_increasing) auto
  with lt have "\<bar>x\<bar> < 2 powi 1024" by linarith
  then show ?thesis
    using False y unfolding round64_def q_def[symmetric] Let_def by simp
qed

lemma round64_of_int: "\<bar>k\<bar> < 2 ^ 53 \<Longrightarrow> round64 (real_of_int k) = Fin (real_of_int k)"
  using round64_exact[of "real_of_int k" k 0] by simp

lemma round64_zero [simp]: "round64 0 = Fin 0"
  by (simp add: round64_def)

lemma round64_numeral [simp]:
  "numeral n < (2::int) ^ 53 \<Longrightarrow> round64 (numeral n) = Fin (numeral n)"
  using round64_of_int[of "numeral n"] by simp

lemma round64_neg_numeral [simp]:
  "numeral n < (2::int) ^ 53 \<Longrightarrow> round64 (- numeral n) = Fin (- numeral n)"
  using round64_of_int[of "- numeral n"] by simp

lemma round64_one [simp]: "round64 1 = Fin 1"
  using round64_of_int[of 1] by simp

lemma round64_half [simp]: "round64 (1 / 2) = Fin (1 / 2)"
  using round64_exact[of "1 / 2" 1 "- 1"] by simp

text \<open>Rounding does not carry a number across a power of two.\<close>

lemma round64_bounded:
  assumes "\<bar>x\<bar> \<le> 2 powi k" "- 1074 \<le> k" "k \<le> 1023"
  shows "\<exists>y. round64 x = Fin y \<and> \<bar>y\<bar> \<le> 2 powi k"
proof (cases "x = 0")
  case True
  then show ?thesis by (simp add: round64_def)
next
  case False
  define q where "q = max (\<lfloor>log 2 \<bar>x\<bar>\<rfloor> - 52) (- 1074)"
  define n :: int where "n = 2 ^ nat (k - q)"
  define r where "r = round_half_even (x / 2 powi q)"
  have "\<lfloor>log 2 \<bar>x\<bar>\<rfloor> \<le> k" using False assms(1) by (intro floor_log2_le) auto
  then have qk: "q \<le> k" using assms(2) unfolding q_def by simp
  have pq: "(0::real) < 2 powi q" by simp
  have n: "real_of_int n = 2 powi (k - q)"
    using qk unfolding n_def by (simp add: power_int_def)
  have nq: "real_of_int n * 2 powi q = 2 powi k"
    unfolding n by (simp add: power_int_add[symmetric])
  have "\<bar>x / 2 powi q\<bar> \<le> real_of_int n"
  proof -
    have "\<bar>x / 2 powi q\<bar> = \<bar>x\<bar> / 2 powi q" by simp
    also have "\<dots> \<le> 2 powi k / 2 powi q" using assms(1) pq by (simp add: divide_right_mono)
    also have "\<dots> = real_of_int n" using nq pq by (simp add: field_simps)
    finally show ?thesis .
  qed
  then have "x / 2 powi q \<le> real_of_int n \<and> - real_of_int n \<le> x / 2 powi q"
    unfolding abs_le_iff by linarith
  then have "x / 2 powi q \<le> real_of_int n" "real_of_int (- n) \<le> x / 2 powi q"
    by simp_all
  then have "r \<le> n" "- n \<le> r" unfolding r_def
    using round_half_even_le round_half_even_ge by blast+
  then have "\<bar>real_of_int r\<bar> \<le> real_of_int n" by linarith
  then have "\<bar>real_of_int r * 2 powi q\<bar> \<le> real_of_int n * 2 powi q"
    using pq by (simp add: abs_mult)
  then have b: "\<bar>real_of_int r * 2 powi q\<bar> \<le> 2 powi k" unfolding nq .
  have "(2::real) powi k < 2 powi 1024"
    using assms(3) by (intro power_int_strict_increasing) auto
  with b have "\<bar>real_of_int r * 2 powi q\<bar> < 2 powi 1024" by linarith
  then show ?thesis
    using False b unfolding round64_def q_def[symmetric] r_def[symmetric] Let_def by simp
qed

subsection \<open>The four rules\<close>

lemma fix_discounts_eq:
  "fix_discounts df =
     (if \<forall>r\<in>set df. discount_mismatch r \<longrightarrow> is_Fin (calculated_discount r)
      then Inr (map repair_discount df) else Inl IntCastingNaNError)"
proof (induction df)
  case Nil
  show ?case by simp
next
  case (Cons r rs)
  show ?case
    by (cases "calculated_discount r") (simp_all add: Cons repair_discount_def)
qed

lemma rule1_eq: "fst (rule1 df) = filter (\<lambda>r. \<not> invalid_pricing r) df"
  by (auto simp: rule1_def list_ex_iff filter_id_conv)

lemma rule3_eq: "fst (rule3 df) = map repair_stock df"
proof (cases "list_ex invalid_stock df")
  case True
  then show ?thesis by (simp add: rule3_def repair_stock_def)
next
  case False
  then have "map repair_stock df = df"
    by (intro map_idI) (simp add: list_ex_iff repair_stock_def)
  with False show ?thesis by (simp add: rule3_def)
qed

lemma rule4_eq: "fst (rule4 df) = map repair_flag df"
proof (cases "list_ex zero_quantity df")
  case True
  then show ?thesis by (simp add: rule4_def repair_flag_def)
next
  case False
  then have "map repair_flag df = df"
    by (intro map_idI) (simp add: list_ex_iff repair_flag_def)
  with False show ?thesis by (simp add: rule4_def)
qed

lemma rule2_eq:
  "rule2 df =
     (if \<forall>r\<in>set df. discount_mismatch r \<longrightarrow> is_Fin (calculated_discount r)
      then Inr (map repair_discount df,
                if list_ex discount_mismatch df
                then [''Fixed '' @ str_nat (length (filter discount_mismatch df))
                        @ '' products with incorrect discount percentages'']
                else [])
      else Inl IntCastingNaNError)"
proof (cases "list_ex discount_mismatch df")
  case True
  then show ?thesis by (simp add: rule2_def fix_discounts_eq)
next
  case False
  then have "map repair_discount df = df"
    by (intro map_idI) (simp add: list_ex_iff repair_discount_def)
  with False show ?thesis by (auto simp: rule2_def list_ex_iff)
qed

lemma validate_Inr:
  assumes "validate_business_rules df = Inr (df', msgs)"
  shows "df' = map repair (filter (\<lambda>r. \<not> invalid_pricing r) df)"
    and "\<forall>r\<in>set (filter (\<lambda>r. \<not> invalid_pricing r) df). discount_mismatch r \<longrightarrow> is_Fin (calculated_discount r)"
proof -
  let ?v1 = "filter (\<lambda>r. \<not> invalid_pricing r) df"
  obtain m1 where r1: "rule1 df = (?v1, m1)" using rule1_eq[of df] by (cases "rule1 df") auto
  from assms r1 obtain v2 m2 where r2: "rule2 ?v1 = Inr (v2, m2)"
    by (auto simp: validate_business_rules_def split: sum.splits)
  from r2 show ok: "\<forall>r\<in>set ?v1. discount_mismatch r \<longrightarrow> is_Fin (calculated_discount r)"
    by (simp add: rule2_eq split: if_splits)
  with r2 have v2: "v2 = map repair_discount ?v1" by (simp add: rule2_eq)
  obtain m3 where r3: "rule3 v2 = (map repair_stock v2, m3)" using rule3_eq[of v2] by (cases "rule3 v2") auto
  obtain m4 where r4: "rule4 (map repair_stock v2) = (map repair_flag (map repair_stock v2), m4)"
    using rule4_eq[of "map repair_stock v2"] by (cases "rule4 (map repair_stock v2)") auto
  from assms r1 r2 r3 r4 show "df' = map repair ?v1"
    by (auto simp: validate_business_rules_def v2 repair_def fun_eq_iff)
qed

lemma validate_cleaned:
  assumes "\<forall>r\<in>set df. cleaned r"
  shows "validate_business_rules df = Inr (df, [])"
proof -
  from assms have a: "\<not> list_ex invalid_pricing df" "\<not> list_ex discount_mismatch df"
     "\<not> list_ex invalid_stock df" "\<not> list_ex zero_quantity df"
    by (auto simp: list_ex_iff cleaned_def)
  then show ?thesis
    by (simp add: validate_business_rules_def rule1_def rule2_def rule3_def rule4_def)
qed

lemma calc_simps [simp]:
  "calculated_discount (r\<lparr>discount_percent := d\<rparr>) = calculated_discount r"
  "calculated_discount (r\<lparr>available_quantity := q\<rparr>) = calculated_discount r"
  "calculated_discount (r\<lparr>out_of_stock := b\<rparr>) = calculated_discount r"
  by (simp_all add: calculated_discount_def)

text \<open>
  The integer written differs from the calculated discount by at most a half, and the
  rounded difference is then at most 1: the mask does not select the row again.
\<close>

lemma repaired_discount_ok:
  assumes "calculated_discount r = Fin c"
  shows "\<not> discount_mismatch (r\<lparr>discount_percent := Fin (of_int (round_half_even c))\<rparr>)"
proof -
  have "\<bar>real_of_int (round_half_even c) - c\<bar> \<le> 2 powi 0"
    using round_half_even_close[of c] by simp
  from round64_bounded[OF this] obtain y where
    y: "round64 (real_of_int (round_half_even c) - c) = Fin y" "\<bar>y\<bar> \<le> 1" by auto
  then show ?thesis
    using assms by (simp add: discount_mismatch_def fsub64_def fsub_def fgt_def)
qed

lemma repair_cleaned:
  assumes "\<not> invalid_pricing r" "discount_mismatch r \<longrightarrow> is_Fin (calculated_discount r)"
  shows "cleaned (repair r)"
proof -
  let ?a = "repair_discount r"
  have a1: "\<not> invalid_pricing ?a" using assms(1)
    by (simp add: repair_discount_def invalid_pricing_def split: num.splits)
  have a2: "\<not> discount_mismatch ?a" using assms(2) repaired_discount_ok[of r]
    by (cases "calculated_discount r") (auto simp: repair_discount_def)
  let ?b = "repair_stock ?a"
  have b1: "\<not> invalid_pricing ?b" using a1 by (simp add: repair_stock_def invalid_pricing_def)
  have b2: "\<not> discount_mismatch ?b" using a2 by (simp add: repair_stock_def discount_mismatch_def)
  have b3: "\<not> invalid_stock ?b" by (simp add: repair_stock_def invalid_stock_def fgt_def)
  let ?c = "repair_flag ?b"
  have c1: "\<not> invalid_pricing ?c" using b1 by (simp add: repair_flag_def invalid_pricing_def)
  have c2: "\<not> discount_mismatch ?c" using b2 by (simp add: repair_flag_def discount_mismatch_def)
  have c3: "\<not> invalid_stock ?c" using b3 by (auto simp: repair_flag_def invalid_stock_def zero_quantity_def fgt_def elim: feq.elims flt.elims)
  have c4: "\<not> zero_quantity ?c" by (simp add: repair_flag_def zero_quantity_def)
  show ?thesis unfolding cleaned_def repair_def using c1 c2 c3 c4 by simp
qed

text \<open>
  Claim C5. The rule engine is idempotent: whenever it returns a table and its messages,
  running it on that table returns the same table and no message. This holds for every
  table on which the first run returns, whatever its cells hold.
\<close>

theorem validate_idempotent:
  assumes "validate_business_rules T = Inr (T', msgs)"
  shows "validate_business_rules T' = Inr (T', [])"
proof -
  from validate_Inr[OF assms] have "\<forall>r\<in>set T'. cleaned r"
    by (auto intro!: repair_cleaned)
  then show ?thesis by (rule validate_cleaned)
qed

subsection \<open>The arithmetic of rule 2 on the example rows\<close>

lemma round64_fifth: "round64 (1 / 5) = Fin (7205759403792794 / 2 ^ 55)"
  by (rule round64_eval[where e = "- 3" and q = "- 55"])
     (simp_all add: round_half_even_def Let_def power_int_minus field_simps)

lemma round64_fifth_100: "round64 (7205759403792794 / 2 ^ 55 * 100) = Fin 20"
  by (rule round64_eval[where e = 4 and q = "- 48"])
     (simp_all add: round_half_even_def Let_def power_int_minus field_simps)

lemma round64_23_40: "round64 (23 / 40) = Fin (5179139571476070 / 2 ^ 53)"
  by (rule round64_eval[where e = "- 1" and q = "- 53"])
     (simp_all add: round_half_even_def Let_def power_int_minus field_simps)

lemma round64_23_40_100:
  "round64 (5179139571476070 / 2 ^ 53 * 100) = Fin (8092405580431359 / 2 ^ 47)"
  by (rule round64_eval[where e = 5 and q = "- 47"])
     (simp_all add: round_half_even_def Let_def power_int_minus field_simps)

lemma round64_10_minus:
  "round64 (10 - 8092405580431359 / 2 ^ 47) = Fin (- (6685030696878079 / 2 ^ 47))"
proof -
  have e: "(10::real) - 8092405580431359 / 2 ^ 47
             = real_of_int (- 6685030696878079) * 2 powi (- 47)"
    by (simp add: power_int_minus field_simps)
  have "round64 (real_of_int (- 6685030696878079) * 2 powi (- 47))
          = Fin (real_of_int (- 6685030696878079) * 2 powi (- 47))"
    by (rule round64_exact[where k = "- 6685030696878079" and j = "- 47"]) simp_all
  then show ?thesis unfolding e[symmetric] by (simp add: power_int_minus field_simps)
qed

lemma round_half_even_numeral [simp]: "round_half_even (numeral n) = numeral n"
  using round_half_even_of_int[of "numeral n"] by simp

lemma round_half_even_57: "round_half_even (8092405580431359 / 2 ^ 47) = 57"
  by (simp add: round_half_even_def Let_def)

text \<open>Prices 1000 and 800: \<open>200 / 1000\<close> is rounded, and the product is exactly 20.\<close>

lemma calc_1000_800:
  assumes "mrp r = Fin 1000" "discounted_selling_price r = Fin 800"
  shows "calculated_discount r = Fin 20"
proof -
  have a: "fsub64 (Fin 1000) (Fin 800) = Fin 200" by (simp add: fsub64_def fsub_def)
  have b: "fdiv64 (Fin 200) (Fin 1000) = Fin (7205759403792794 / 2 ^ 55)"
    by (simp add: fdiv64_def round64_fifth)
  have c: "fmul64 (Fin (7205759403792794 / 2 ^ 55)) (Fin 100) = Fin 20"
    unfolding fmul64_def fmul.simps rnd.simps by (rule round64_fifth_100)
  show ?thesis unfolding calculated_discount_def assms a b c ..
qed

lemma calc_1000_500:
  assumes "mrp r = Fin 1000" "discounted_selling_price r = Fin 500"
  shows "calculated_discount r = Fin 50"
proof -
  have a: "fsub64 (Fin 1000) (Fin 500) = Fin 500" by (simp add: fsub64_def fsub_def)
  have b: "fdiv64 (Fin 500) (Fin 1000) = Fin (1 / 2)" by (simp add: fdiv64_def)
  have c: "fmul64 (Fin (1 / 2)) (Fin 100) = Fin 50" by (simp add: fmul64_def)
  show ?thesis unfolding calculated_discount_def assms a b c ..
qed

text \<open>
  Prices 200 and 85: \<open>115 / 200\<close> is rounded down, and the product with 100 is rounded
  to the binary64 number just below 57.5.
\<close>

lemma calc_200_85:
  assumes "mrp r = Fin 200" "discounted_selling_price r = Fin 85"
  shows "calculated_discount r = Fin (8092405580431359 / 2 ^ 47)"
proof -
  have a: "fsub64 (Fin 200) (Fin 85) = Fin 115" by (simp add: fsub64_def fsub_def)
  have b: "fdiv64 (Fin 115) (Fin 200) = Fin (5179139571476070 / 2 ^ 53)"
    by (simp add: fdiv64_def round64_23_40)
  have c: "fmul64 (Fin (5179139571476070 / 2 ^ 53)) (Fin 100) = Fin (8092405580431359 / 2 ^ 47)"
    unfolding fmul64_def fmul.simps rnd.simps by (rule round64_23_40_100)
  show ?thesis unfolding calculated_discount_def assms a b c ..
qed

text \<open>A price of 0: the quotient is an infinity, and so is the product.\<close>

lemma calc_0_minus_5:
  assumes "mrp r = Fin 0" "discounted_selling_price r = Fin (- 5)"
  shows "calculated_discount r = PInf"
  unfolding calculated_discount_def assms
  by (simp add: fsub64_def fsub_def fdiv64_def fmul64_def)

lemma calc_missing_mrp:
  assumes "mrp r = NaN"
  shows "calculated_discount r = NaN"
  unfolding calculated_discount_def assms
  by (simp add: fsub64_def fsub_def fdiv64_def fmul64_def)

lemma mismatch_5_20:
  assumes "discount_percent r = Fin 5" "calculated_discount r = Fin 20"
  shows "discount_mismatch r"
  unfolding discount_mismatch_def assms by (simp add: fsub64_def fsub_def fgt_def)

lemma mismatch_20_20:
  assumes "discount_percent r = Fin 20" "calculated_discount r = Fin 20"
  shows "\<not> discount_mismatch r"
  unfolding discount_mismatch_def assms by (simp add: fsub64_def fsub_def fgt_def)

lemma mismatch_50_50:
  assumes "discount_percent r = Fin 50" "calculated_discount r = Fin 50"
  shows "\<not> discount_mismatch r"
  unfolding discount_mismatch_def assms by (simp add: fsub64_def fsub_def fgt_def)

lemma mismatch_10_57:
  assumes "discount_percent r = Fin 10"
    "calculated_discount r = Fin (8092405580431359 / 2 ^ 47)"
  shows "discount_mismatch r"
proof -
  have "fsub64 (Fin 10) (Fin (8092405580431359 / 2 ^ 47)) = Fin (- (6685030696878079 / 2 ^ 47))"
    unfolding fsub64_def fsub_def fneg.simps fadd.simps rnd.simps
    using round64_10_minus by simp
  then show ?thesis unfolding discount_mismatch_def assms by (simp add: fgt_def)
qed

lemma mismatch_10_PInf:
  assumes "discount_percent r = Fin 10" "calculated_discount r = PInf"
  shows "discount_mismatch r"
  unfolding discount_mismatch_def assms by (simp add: fsub64_def fsub_def fgt_def)

lemma mismatch_NaN:
  assumes "calculated_discount r = NaN"
  shows "\<not> discount_mismatch r"
  unfolding discount_mismatch_def assms
  by (cases "discount_percent r") (simp_all add: fsub64_def fsub_def fgt_def)

lemmas rule_engine_defs =
  validate_business_rules_def rule1_def rule2_def rule3_def rule4_def
  invalid_pricing_def invalid_stock_def zero_quantity_def

lemmas rule2_examples =
  calc_1000_800 calc_1000_500 calc_200_85 calc_0_minus_5 calc_missing_mrp
  mismatch_5_20 mismatch_20_20 mismatch_50_50 mismatch_10_57 mismatch_10_PInf mismatch_NaN
  round_half_even_57

lemma str_nat_1: "str_nat (Suc 0) = ''1''"
  by (simp add: str_nat.simps)

theorem validate_idempotent_witness:
  "validate_business_rules
     [\<lparr>category = Some (py ''Snacks''), name = Some (py ''Chips''), mrp = Fin 1000,
       discount_percent = Fin 5, available_quantity = Fin 10,
       discounted_selling_price = Fin 800, weight_in_gms = Fin 50,
       out_of_stock = Some True, quantity = Fin 1\<rparr>]
   = Inr ([\<lparr>category = Some (py ''Snacks''), name = Some (py ''Chips''), mrp = Fin 1000,
            discount_percent = Fin 20, available_quantity = Fin 0,
            discounted_selling_price = Fin 800, weight_in_gms = Fin 50,
            out_of_stock = Some True, quantity = Fin 1\<rparr>],
          [''Fixed 1 products with incorrect discount percentages'',
           ''Fixed 1 out-of-stock products with non-zero availability''])
   \<and> validate_business_rules
     [\<lparr>category = Some (py ''Snacks''), name = Some (py ''Chips''), mrp = Fin 1000,
       discount_percent = Fin 20, available_quantity = Fin 0,
       discounted_selling_price = Fin 800, weight_in_gms = Fin 50,
       out_of_stock = Some True, quantity = Fin 1\<rparr>]
   = Inr ([\<lparr>category = Some (py ''Snacks''), name = Some (py ''Chips''), mrp = Fin 1000,
            discount_percent = Fin 20, available_quantity = Fin 0,
            discounted_selling_price = Fin 800, weight_in_gms = Fin 50,
            out_of_stock = Some True, quantity = Fin 1\<rparr>], [])"
proof -
  have h: "validate_business_rules
     [\<lparr>category = Some (py ''Snacks''), name = Some (py ''Chips''), mrp = Fin 1000,
       discount_percent = Fin 5, available_quantity = Fin 10,
       discounted_selling_price = Fin 800, weight_in_gms = Fin 50,
       out_of_stock = Some True, quantity = Fin 1\<rparr>]
   = Inr ([\<lparr>category = Some (py ''Snacks''), name = Some (py ''Chips''), mrp = Fin 1000,
            discount_percent = Fin 20, available_quantity = Fin 0,
            discounted_selling_price = Fin 800, weight_in_gms = Fin 50,
            out_of_stock = Some True, quantity = Fin 1\<rparr>],
          [''Fixed 1 products with incorrect discount percentages'',
           ''Fixed 1 out-of-stock products with non-zero availability''])"
    by (simp add: rule_engine_defs rule2_examples fgt_def str_nat_1)
  from h validate_idempotent[OF h] show ?thesis by simp
qed

subsection \<open>When the rule engine returns\<close>

lemma validate_returns:
  assumes "\<forall>r\<in>set (filter (\<lambda>r. \<not> invalid_pricing r) df).
             discount_mismatch r \<longrightarrow> is_Fin (calculated_discount r)"
  shows "\<exists>msgs. validate_business_rules df =
           Inr (map repair (filter (\<lambda>r. \<not> invalid_pricing r) df), msgs)"
proof -
  let ?v1 = "filter (\<lambda>r. \<not> invalid_pricing r) df"
  let ?v2 = "map repair_discount ?v1"
  obtain m1 where r1: "rule1 df = (?v1, m1)"
    using rule1_eq[of df] by (cases "rule1 df") auto
  from assms obtain m2 where r2: "rule2 ?v1 = Inr (?v2, m2)"
    by (simp add: rule2_eq)
  obtain m3 where r3: "rule3 ?v2 = (map repair_stock ?v2, m3)"
    using rule3_eq[of ?v2] by (cases "rule3 ?v2") auto
  obtain m4 where r4: "rule4 (map repair_stock ?v2) = (map repair_flag (map repair_stock ?v2), m4)"
    using rule4_eq[of "map repair_stock ?v2"] by (cases "rule4 (map repair_stock ?v2)") auto
  have "validate_business_rules df = Inr (map repair ?v1, m1 @ m2 @ m3 @ m4)"
    using r1 r2 r3 r4 by (simp add: validate_business_rules_def repair_def)
  then show ?thesis by blast
qed

lemma validate_raises:
  assumes "\<not> (\<forall>r\<in>set (filter (\<lambda>r. \<not> invalid_pricing r) df).
             discount_mismatch r \<longrightarrow> is_Fin (calculated_discount r))"
  shows "validate_business_rules df = Inl IntCastingNaNError"
proof -
  let ?v1 = "filter (\<lambda>r. \<not> invalid_pricing r) df"
  obtain m1 where r1: "rule1 df = (?v1, m1)"
    using rule1_eq[of df] by (cases "rule1 df") auto
  from assms have r2: "rule2 ?v1 = Inl IntCastingNaNError"
    unfolding rule2_eq by (simp only: if_False)
  show ?thesis using r1 r2 by (simp add: validate_business_rules_def)
qed

text \<open>A mismatching row has a calculated discount that is a number or an infinity.\<close>

lemma rnd_NaN: "rnd x = NaN \<Longrightarrow> x = NaN"
  by (cases x) (auto simp: round64_def Let_def split: if_splits)



lemma repair_frame: "same_but_repaired r (repair r)"
  by (cases "calculated_discount r")
     (simp_all add: same_but_repaired_def repair_def repair_flag_def repair_stock_def repair_discount_def)

lemma not_flt_iff: "(\<not> flt a b) = (fge a b \<or> a = NaN \<or> b = NaN)"
  by (cases a; cases b) (auto simp: fge_def fle_def)

lemmas example_rows =
  example_row_A_def example_row_B_def example_negative_stock_def
  example_missing_mrp_def example_zero_mrp_def example_inexact_def

lemmas cmp_defs = fge_def fle_def fgt_def fsub_def

text \<open>
  Claim C6 as stated fails in two ways. Rule 1 removes the rows with
  \<open>mrp < discounted_selling_price\<close>, and that comparison is false when a price is
  missing: a row with a missing \<open>mrp\<close> is returned though it does not have
  \<open>mrp \<ge> discounted_selling_price\<close>. And the engine does not return a table for
  every input: on a row with \<open>mrp\<close> 0 (which has \<open>mrp \<ge> discounted_selling_price\<close>
  when the price is negative) rule 2 raises.
\<close>

theorem rule_engine_rows_counterexample:
  "validate_business_rules [example_missing_mrp] = Inr ([example_missing_mrp], []) \<and>
   \<not> fge (mrp example_missing_mrp) (discounted_selling_price example_missing_mrp) \<and>
   validate_business_rules [example_zero_mrp] = Inl IntCastingNaNError \<and>
   fge (mrp example_zero_mrp) (discounted_selling_price example_zero_mrp)"
  by (simp add: example_rows rule_engine_defs rule2_examples cmp_defs)

text \<open>
  Claim C6, amended. For every input table the rule engine either raises
  \<open>IntCastingNaNError\<close>, and then some row of the table has a calculated discount that
  is not a number, or returns a table whose rows are, one for one and in the same
  order, the input rows that have \<open>mrp \<ge> discounted_selling_price\<close> or a missing
  price: each result row agrees with its input row on every column but the three
  repaired ones. So rule 1 alone removes rows, rules 2 to 4 assign values in place, and
  no rule adds or reorders rows.
\<close>

theorem rule_engine_rows:
  "(\<exists>df' msgs. validate_business_rules df = Inr (df', msgs) \<and>
      list_all2 same_but_repaired
        (filter (\<lambda>r. fge (mrp r) (discounted_selling_price r) \<or> mrp r = NaN \<or>
                      discounted_selling_price r = NaN) df) df') \<or>
   (validate_business_rules df = Inl IntCastingNaNError \<and>
    list_ex (\<lambda>r. \<not> is_Fin (calculated_discount r)) df)"
proof (cases "\<forall>r\<in>set (filter (\<lambda>r. \<not> invalid_pricing r) df).
             discount_mismatch r \<longrightarrow> is_Fin (calculated_discount r)")
  case True
  let ?v1 = "filter (\<lambda>r. \<not> invalid_pricing r) df"
  from validate_returns[OF True] obtain msgs where
    v: "validate_business_rules df = Inr (map repair ?v1, msgs)" by blast
  have f: "?v1 = filter (\<lambda>r. fge (mrp r) (discounted_selling_price r) \<or> mrp r = NaN \<or>
                      discounted_selling_price r = NaN) df"
    by (simp add: invalid_pricing_def not_flt_iff)
  have "list_all2 same_but_repaired ?v1 (map repair ?v1)"
    by (simp add: list_all2_map2 list_all2_same repair_frame)
  with v f show ?thesis by auto
next
  case False
  from validate_raises[OF False] False show ?thesis by (auto simp: list_ex_iff)
qed

theorem rule_engine_rows_witness:
  "\<exists>df' msgs. validate_business_rules [example_row_A, example_row_B] = Inr (df', msgs) \<and>
      list_all2 same_but_repaired [example_row_B] df'"
proof -
  have v: "validate_business_rules [example_row_A, example_row_B] \<noteq> Inl IntCastingNaNError"
    by (simp add: example_rows rule_engine_defs rule2_examples cmp_defs)
  have f: "filter (\<lambda>r. fge (mrp r) (discounted_selling_price r) \<or> mrp r = NaN \<or>
                      discounted_selling_price r = NaN) [example_row_A, example_row_B]
             = [example_row_B]"
    by (simp add: example_rows cmp_defs)
  from rule_engine_rows[of "[example_row_A, example_row_B]"] v f show ?thesis by simp
qed




section \<open>Properties of the normalizer\<close>

lemma fle_NaN [simp]: "\<not> fle NaN x" "\<not> fle x NaN" "\<not> fge NaN x" "\<not> fge x NaN"
  by (cases x; simp add: fle_def fge_def)+

lemma transform_data_append:
  "transform_data parse (xs @ ys) = transform_data parse xs @ transform_data parse ys"
  by (simp add: transform_data_def)

lemma transform_data_single:
  "transform_data parse [raw] =
     (if essential_present (convert parse raw) \<and> prices_positive (convert parse raw) \<and>
         discount_in_range (convert parse raw)
      then [fill_defaults (convert parse raw)] else [])"
  by (simp add: transform_data_def)

lemma fgt_not_NaN: "fgt x y \<Longrightarrow> x \<noteq> NaN"
  by (cases x; cases y) (auto simp: fgt_def)

lemma out_of_range: "flt p (Fin 0) \<or> fgt p (Fin 100) \<Longrightarrow> \<not> (fge p (Fin 0) \<and> fle p (Fin 100))"
  by (cases p) (auto simp: fgt_def fge_def fle_def)

text \<open>
  Claim C2, amended. Of a table of one row, with the three numbers read by the lenient
  parse: a row whose \<open>discount_percent\<close> is missing is rejected (the range filter
  compares the missing value with 0 and 100, and both comparisons are false); a row
  whose discount is below 0 or above 100 is rejected; a row with both prices positive
  and the discount within 0 and 100 is kept, its text stripped and the defaults filled
  in. The normalizer works row by row, so this settles every table.
\<close>

theorem missing_discount_rejected:
  "(to_numeric parse (raw_discountPercent raw) = NaN \<longrightarrow> transform_data parse [raw] = []) \<and>
   (flt (to_numeric parse (raw_discountPercent raw)) (Fin 0) \<or>
    fgt (to_numeric parse (raw_discountPercent raw)) (Fin 100) \<longrightarrow>
      transform_data parse [raw] = []) \<and>
   (fgt (to_numeric parse (raw_mrp raw)) (Fin 0) \<and>
    fgt (to_numeric parse (raw_discountedSellingPrice raw)) (Fin 0) \<and>
    fge (to_numeric parse (raw_discountPercent raw)) (Fin 0) \<and>
    fle (to_numeric parse (raw_discountPercent raw)) (Fin 100) \<longrightarrow>
      transform_data parse [raw] =
        [\<lparr>category = Some (strip (raw_Category raw)),
          name = Some (strip (raw_name raw)),
          mrp = to_numeric parse (raw_mrp raw),
          discount_percent = to_numeric parse (raw_discountPercent raw),
          available_quantity =
            (if to_numeric parse (raw_availableQuantity raw) = NaN then Fin 0
             else to_numeric parse (raw_availableQuantity raw)),
          discounted_selling_price = to_numeric parse (raw_discountedSellingPrice raw),
          weight_in_gms =
            (if to_numeric parse (raw_weightInGms raw) = NaN then Fin 0
             else to_numeric parse (raw_weightInGms raw)),
          out_of_stock =
            (case map_flag (raw_outOfStock raw) of None \<Rightarrow> Some False | Some b \<Rightarrow> Some b),
          quantity =
            (if to_numeric parse (raw_quantity raw) = NaN then Fin 1
             else to_numeric parse (raw_quantity raw))\<rparr>]) \<and>
   transform_data parse (xs @ ys) = transform_data parse xs @ transform_data parse ys"
proof -
  have a: "to_numeric parse (raw_discountPercent raw) = NaN \<Longrightarrow> transform_data parse [raw] = []"
    by (simp add: transform_data_single discount_in_range_def convert_def)
  have b: "flt (to_numeric parse (raw_discountPercent raw)) (Fin 0) \<or>
           fgt (to_numeric parse (raw_discountPercent raw)) (Fin 100) \<Longrightarrow>
             transform_data parse [raw] = []"
    using out_of_range[of "to_numeric parse (raw_discountPercent raw)"]
    by (simp add: transform_data_single discount_in_range_def convert_def)
  have c: "transform_data parse [raw] =
        [\<lparr>category = Some (strip (raw_Category raw)),
          name = Some (strip (raw_name raw)),
          mrp = to_numeric parse (raw_mrp raw),
          discount_percent = to_numeric parse (raw_discountPercent raw),
          available_quantity =
            (if to_numeric parse (raw_availableQuantity raw) = NaN then Fin 0
             else to_numeric parse (raw_availableQuantity raw)),
          discounted_selling_price = to_numeric parse (raw_discountedSellingPrice raw),
          weight_in_gms =
            (if to_numeric parse (raw_weightInGms raw) = NaN then Fin 0
             else to_numeric parse (raw_weightInGms raw)),
          out_of_stock =
            (case map_flag (raw_outOfStock raw) of None \<Rightarrow> Some False | Some b \<Rightarrow> Some b),
          quantity =
            (if to_numeric parse (raw_quantity raw) = NaN then Fin 1
             else to_numeric parse (raw_quantity raw))\<rparr>]"
    if "fgt (to_numeric parse (raw_mrp raw)) (Fin 0)"
       "fgt (to_numeric parse (raw_discountedSellingPrice raw)) (Fin 0)"
       "fge (to_numeric parse (raw_discountPercent raw)) (Fin 0)"
       "fle (to_numeric parse (raw_discountPercent raw)) (Fin 100)"
    using that fgt_not_NaN[OF that(1)] fgt_not_NaN[OF that(2)]
    by (simp add: transform_data_single discount_in_range_def prices_positive_def
          essential_present_def convert_def fill_defaults_def fillna_def)
  from a b c show ?thesis by (simp only: transform_data_append) blast
qed

lemma py_simps: "py [] = []" "py (c # cs) = of_char c # py cs"
  by (simp_all add: py_def)

text \<open>
  Claim C2 as stated fails: a row with text, positive prices and an empty discount cell
  is not kept.
\<close>

theorem missing_discount_rejected_counterexample:
  "convert parse_digits example_raw_missing_discount =
     \<lparr>category = Some (py ''Snacks''), name = Some (py ''Chips''), mrp = Fin 1000,
      discount_percent = NaN, available_quantity = Fin 5,
      discounted_selling_price = Fin 800, weight_in_gms = Fin 50,
      out_of_stock = Some False, quantity = Fin 1\<rparr> \<and>
   transform_data parse_digits [example_raw_missing_discount] = []"
  by (simp add: transform_data_single convert_def example_raw_missing_discount_def
        discount_in_range_def strip_def isspace_def py_simps)

theorem missing_discount_rejected_witness:
  "to_numeric parse_digits (raw_discountPercent example_raw_text_discount) = NaN \<and>
   to_numeric parse_digits (raw_mrp example_raw_text_discount) = Fin 1000 \<and>
   transform_data parse_digits [example_raw_text_discount] = [] \<and>
   transform_data parse_digits [example_raw_high_discount] = [] \<and>
   transform_data parse_digits [example_raw_kept] =
     [\<lparr>category = Some (py ''Snacks''), name = Some (py ''Chips''), mrp = Fin 1000,
       discount_percent = Fin 20, available_quantity = Fin 0,
       discounted_selling_price = Fin 800, weight_in_gms = Fin 50,
       out_of_stock = Some False, quantity = Fin 1\<rparr>]"
proof -
  have h: "to_numeric parse_digits (raw_discountPercent example_raw_text_discount) = NaN"
    by (simp add: example_raw_text_discount_def parse_digits_def py_simps)
  have m: "to_numeric parse_digits (raw_mrp example_raw_text_discount) = Fin 1000"
    by (simp add: example_raw_text_discount_def parse_digits_def py_simps)
  have t: "transform_data parse_digits [example_raw_text_discount] = []"
    using missing_discount_rejected[of parse_digits example_raw_text_discount] h by simp
  have u: "transform_data parse_digits [example_raw_high_discount] = []"
    using missing_discount_rejected[of parse_digits example_raw_high_discount]
    by (simp add: example_raw_high_discount_def fgt_def)
  have k: "transform_data parse_digits [example_raw_kept] =
     [\<lparr>category = Some (py ''Snacks''), name = Some (py ''Chips''), mrp = Fin 1000,
       discount_percent = Fin 20, available_quantity = Fin 0,
       discounted_selling_price = Fin 800, weight_in_gms = Fin 50,
       out_of_stock = Some False, quantity = Fin 1\<rparr>]"
    using missing_discount_rejected[of parse_digits example_raw_kept]
    by (simp add: example_raw_kept_def fgt_def fge_def fle_def strip_def isspace_def py_simps)
  from h m t u k show ?thesis by simp
qed

section \<open>The rule engine after the normalizer\<close>

text \<open>
  Claim C1 fails on a flagged row with a negative quantity. Rule 3 is written for
  ``out of stock products should have 0 available quantity'' and reports rows ``with
  non-zero availability'', but its mask tests \<open>available_quantity > 0\<close>. The row is
  one the normalizer returns; it leaves the rule engine unchanged and without a
  message, flagged out of stock with a quantity of \<open>-5\<close>, so
  \<open>out_of_stock = (available_quantity = 0)\<close> does not hold of it.
\<close>

theorem negative_quantity_stays_flagged:
  "transform_data parse_digits [example_raw_negative_stock] = [example_negative_stock] \<and>
   validate_business_rules [example_negative_stock] = Inr ([example_negative_stock], []) \<and>
   out_of_stock example_negative_stock = Some True \<and>
   available_quantity example_negative_stock = Fin (- 5) \<and>
   \<not> feq (available_quantity example_negative_stock) (Fin 0)"
proof -
  have "transform_data parse_digits [example_raw_negative_stock] = [example_negative_stock]"
    by (simp add: transform_data_single convert_def example_raw_negative_stock_def
        example_negative_stock_def discount_in_range_def prices_positive_def
        essential_present_def fill_defaults_def fillna_def cmp_defs strip_def isspace_def
        py_simps)
  moreover have
    "validate_business_rules [example_negative_stock] = Inr ([example_negative_stock], [])"
    by (simp add: example_rows cmp_defs rule_engine_defs rule2_examples)
  ultimately show ?thesis by (simp add: example_negative_stock_def)
qed

section \<open>Properties of the outlier detector\<close>


lemma insert_num_length: "length (insert_num x ys) = Suc (length ys)"
  by (induction ys) auto


lemma sort_num_length: "length (sort_num xs) = length xs"
  by (induction xs) (simp_all add: sort_num_def insert_num_length)












subsection \<open>The z-scores of a constant column\<close>

































section \<open>Properties of the quality reporter\<close>

lemma outliers_of_returns: "\<exists>outs. outliers_of df cols = Inr outs"
  by (induction cols) (auto simp: detect_outliers_def Let_def)

text \<open>
  Claim C3 fails on the code. The report of a table with no rows is not returned:
  \<open>df['discount_percent'].max()\<close> of the empty column is NaN and \<open>int\<close> of it raises
  \<open>ValueError\<close>.
\<close>

theorem report_of_empty_table:
  "generate_data_quality_report dtype [] =
     Inl (ValueError ''cannot convert float NaN to integer'')"
proof -
  obtain outs where "outliers_of []
      [''mrp'', ''discounted_selling_price'', ''discount_percent'', ''weight_in_gms''] = Inr outs"
    using outliers_of_returns by blast
  then show ?thesis
    by (simp add: generate_data_quality_report_def price_statistics_of_def col_max_def
          dropna_def)
qed

text \<open>
  On a table whose discounts have a finite maximum and minimum the report is returned,
  with the number of rows in \<open>total_rows\<close>.
\<close>

lemma report_returns:
  assumes "is_Fin (col_max (map discount_percent df))"
    and "is_Fin (col_min (map discount_percent df))"
  shows "\<exists>rep. generate_data_quality_report dtype df = Inr rep \<and> total_rows rep = length df"
proof -
  obtain outs where o: "outliers_of df
      [''mrp'', ''discounted_selling_price'', ''discount_percent'', ''weight_in_gms''] = Inr outs"
    using outliers_of_returns by blast
  from assms obtain a b where "col_max (map discount_percent df) = Fin a"
    "col_min (map discount_percent df) = Fin b"
    by (metis is_Fin.elims(2))
  with o show ?thesis
    by (simp add: generate_data_quality_report_def price_statistics_of_def)
qed

section \<open>Properties of the currency cleaner\<close>




lemma cell_num_numeric:
  "map cell_num (map (to_numeric_cell parse) (map (strip_currency astype_str) cells))
     = parsed_column astype_str parse cells"
  by (simp add: parsed_column_def strip_currency_def)









section \<open>Properties of the transformations on a store\<close>

lemma unchanged_refl: "unchanged h h"
  by (simp add: unchanged_def)

lemma unchanged_append: "unchanged h (h @ xs)"
  by (simp add: unchanged_def)

lemma unchanged_nth:
  assumes "unchanged h h'" "a < length h"
  shows "h' ! a = h ! a"
proof -
  have "take (length h) h' ! a = h' ! a" using assms(2) by simp
  with assms(1) show ?thesis by (simp add: unchanged_def)
qed

lemma clean_loop_h_eq:
  "c < length h \<Longrightarrow>
   clean_loop_h astype_str parse h c cols =
     h[c := clean_currency_values astype_str parse (h ! c) cols]"
  by (induction cols arbitrary: h) (simp_all add: Let_def frame_store_def)

lemma clean_h_eq:
  "clean_currency_values_h astype_str parse h df cols =
     (h @ [clean_currency_values astype_str parse (h ! df) cols], length h)"
  by (simp add: clean_currency_values_h_def frame_copy_def clean_loop_h_eq)

lemma standardize_h_eq:
  "standardize_category_names_h h df = (h @ [standardize_category_names (h ! df)], length h)"
  by (simp add: standardize_category_names_h_def frame_copy_def frame_store_def
        standardize_category_names_def)

lemma enrich_h_eq:
  "enrich_data_h h df = (h @ [enrich_data (h ! df)], length h)"
  by (simp add: enrich_data_h_def frame_copy_def frame_store_def enrich_data_def)

lemma rule1_no_invalid: "\<not> list_ex invalid_pricing t \<Longrightarrow> rule1 t = (t, [])"
  by (simp add: rule1_def)

lemma rule3_no_invalid: "\<not> list_ex invalid_stock t \<Longrightarrow> rule3 t = (t, [])"
  by (simp add: rule3_def)

lemma rule4_no_zero: "\<not> list_ex zero_quantity t \<Longrightarrow> rule4 t = (t, [])"
  by (simp add: rule4_def)

lemma rule2_no_mismatch: "\<not> list_ex discount_mismatch t \<Longrightarrow> rule2 t = Inr (t, [])"
  by (simp add: rule2_def)

lemma rule2_h_eq:
  "rule2_h h v =
     (case rule2 (h ! v) of
        Inl e \<Rightarrow> (h, Inl e)
      | Inr (fixed, m) \<Rightarrow> (h[v := fixed], Inr m))"
proof (cases "list_ex discount_mismatch (h ! v)")
  case True
  then show ?thesis
    by (simp add: rule2_h_def frame_store_def Let_def split: sum.splits)
next
  case False
  then show ?thesis
    by (simp add: rule2_h_def frame_store_def Let_def rule2_no_mismatch)
qed

lemma rule3_h_eq: "rule3_h h v = (h[v := fst (rule3 (h ! v))], snd (rule3 (h ! v)))"
  by (cases "list_ex invalid_stock (h ! v)")
     (simp_all add: rule3_h_def frame_store_def rule3_no_invalid)

lemma rule4_h_eq: "rule4_h h v = (h[v := fst (rule4 (h ! v))], snd (rule4 (h ! v)))"
  by (cases "list_ex zero_quantity (h ! v)")
     (simp_all add: rule4_h_def frame_store_def rule4_no_zero)

lemma rule1_h_eq:
  "rule1_h (h @ [t]) (length h) =
     (if list_ex invalid_pricing t
      then (h @ [t, fst (rule1 t)], Suc (length h), snd (rule1 t))
      else (h @ [t], length h, snd (rule1 t)))"
  by (simp add: rule1_h_def frame_new_def rule1_no_invalid)

text \<open>
  The rule engine on a store: what the store and the outcome are, in terms of the rule
  engine on the frame passed. The frames made on the way stay in the store behind the
  frames that were there.
\<close>

lemma validate_h_raises:
  assumes "rule2 (fst (rule1 (h ! df))) = Inl e"
  shows "\<exists>made. validate_business_rules_h h df = (h @ made, Inl e)"
    and "validate_business_rules (h ! df) = Inl e"
proof -
  let ?t = "h ! df"
  show "validate_business_rules (h ! df) = Inl e"
    using assms by (simp add: validate_business_rules_def split_def)
  show "\<exists>made. validate_business_rules_h h df = (h @ made, Inl e)"
  proof (cases "list_ex invalid_pricing ?t")
    case True
    have "validate_business_rules_h h df = (h @ [?t, fst (rule1 ?t)], Inl e)"
      using assms True
      by (simp add: validate_business_rules_h_def frame_copy_def rule1_h_eq rule2_h_eq
            nth_append)
    then show ?thesis by blast
  next
    case False
    then have r: "fst (rule1 ?t) = ?t" by (simp add: rule1_no_invalid)
    have "validate_business_rules_h h df = (h @ [?t], Inl e)"
      using assms False r
      by (simp add: validate_business_rules_h_def frame_copy_def rule1_h_eq rule2_h_eq
            nth_append)
    then show ?thesis by blast
  qed
qed

lemma validate_h_returns:
  assumes "rule2 (fst (rule1 (h ! df))) = Inr (t2, m2)"
  shows "\<exists>made res msgs.
           validate_business_rules_h h df = (h @ made, Inr (res, msgs)) \<and>
           length h \<le> res \<and> res < length (h @ made) \<and>
           validate_business_rules (h ! df) = Inr ((h @ made) ! res, msgs)"
proof -
  let ?t = "h ! df"
  let ?t4 = "fst (rule4 (fst (rule3 t2)))"
  let ?msgs = "snd (rule1 ?t) @ m2 @ snd (rule3 t2) @ snd (rule4 (fst (rule3 t2)))"
  have pure: "validate_business_rules ?t = Inr (?t4, ?msgs)"
    using assms by (simp add: validate_business_rules_def split_def Let_def)
  show ?thesis
  proof (cases "list_ex invalid_pricing ?t")
    case True
    have "validate_business_rules_h h df
            = (h @ [?t, t2, ?t4], Inr (Suc (Suc (length h)), ?msgs))"
      using assms True
      by (simp add: validate_business_rules_h_def frame_copy_def rule1_h_eq rule2_h_eq
            rule3_h_eq rule4_h_eq frame_new_def nth_append list_update_append split_def Let_def)
    with pure show ?thesis
      by (intro exI[of _ "[?t, t2, ?t4]"] exI[of _ "Suc (Suc (length h))"] exI[of _ ?msgs])
         (simp add: nth_append)
  next
    case False
    then have r: "fst (rule1 ?t) = ?t" by (simp add: rule1_no_invalid)
    have "validate_business_rules_h h df
            = (h @ [t2, ?t4], Inr (Suc (length h), ?msgs))"
      using assms False r
      by (simp add: validate_business_rules_h_def frame_copy_def rule1_h_eq rule2_h_eq
            rule3_h_eq rule4_h_eq frame_new_def nth_append list_update_append split_def Let_def)
    with pure show ?thesis
      by (intro exI[of _ "[t2, ?t4]"] exI[of _ "Suc (length h)"] exI[of _ ?msgs])
         (simp add: nth_append)
  qed
qed

lemma validate_h_outcome:
  "\<exists>made. fst (validate_business_rules_h h df) = h @ made \<and>
     (case snd (validate_business_rules_h h df) of
        Inl err \<Rightarrow> validate_business_rules (h ! df) = Inl err
      | Inr (res, msgs) \<Rightarrow>
          length h \<le> res \<and> res < length (h @ made) \<and>
          validate_business_rules (h ! df) = Inr ((h @ made) ! res, msgs))"
proof (cases "rule2 (fst (rule1 (h ! df)))")
  case (Inl e)
  from validate_h_raises[OF Inl] show ?thesis by auto
next
  case (Inr b)
  obtain t2 m2 where "b = (t2, m2)" by (cases b)
  with Inr have "rule2 (fst (rule1 (h ! df))) = Inr (t2, m2)" by simp
  from validate_h_returns[OF this] show ?thesis by auto
qed

text \<open>
  Claim C10. Each of the four transformations, run on a store that holds the caller's
  frame at a reference, leaves every frame that was in the store as it was, the caller's
  among them: the store after the call is the store before it with new frames behind.
  The result is one of the new frames, and it holds what the transformation computes
  from the caller's frame; the rule engine does so also when it raises, and then the
  error is the one it raises on the caller's frame.
\<close>

theorem transformations_keep_input:
  fixes hc :: "frame heap" and hp :: "product list heap" and he :: "eframe heap"
  assumes "c < length hc" "p < length hp" "e < length he"
  shows "(fst (clean_currency_values_h astype_str parse hc c cols) ! c = hc ! c \<and>
          unchanged hc (fst (clean_currency_values_h astype_str parse hc c cols)) \<and>
          length hc \<le> snd (clean_currency_values_h astype_str parse hc c cols) \<and>
          fst (clean_currency_values_h astype_str parse hc c cols)
              ! snd (clean_currency_values_h astype_str parse hc c cols)
            = clean_currency_values astype_str parse (hc ! c) cols) \<and>
         (fst (standardize_category_names_h hp p) ! p = hp ! p \<and>
          unchanged hp (fst (standardize_category_names_h hp p)) \<and>
          length hp \<le> snd (standardize_category_names_h hp p) \<and>
          fst (standardize_category_names_h hp p) ! snd (standardize_category_names_h hp p)
            = standardize_category_names (hp ! p)) \<and>
         (fst (enrich_data_h he e) ! e = he ! e \<and>
          unchanged he (fst (enrich_data_h he e)) \<and>
          length he \<le> snd (enrich_data_h he e) \<and>
          fst (enrich_data_h he e) ! snd (enrich_data_h he e) = enrich_data (he ! e)) \<and>
         (fst (validate_business_rules_h hp p) ! p = hp ! p \<and>
          unchanged hp (fst (validate_business_rules_h hp p)) \<and>
          (case snd (validate_business_rules_h hp p) of
             Inl err \<Rightarrow> validate_business_rules (hp ! p) = Inl err
           | Inr (res, msgs) \<Rightarrow>
               length hp \<le> res \<and>
               validate_business_rules (hp ! p)
                 = Inr (fst (validate_business_rules_h hp p) ! res, msgs)))"
proof -
  have a: "fst (clean_currency_values_h astype_str parse hc c cols) ! c = hc ! c \<and>
          unchanged hc (fst (clean_currency_values_h astype_str parse hc c cols)) \<and>
          length hc \<le> snd (clean_currency_values_h astype_str parse hc c cols) \<and>
          fst (clean_currency_values_h astype_str parse hc c cols)
              ! snd (clean_currency_values_h astype_str parse hc c cols)
            = clean_currency_values astype_str parse (hc ! c) cols"
    using assms(1) by (simp add: clean_h_eq unchanged_append nth_append)
  have b: "fst (standardize_category_names_h hp p) ! p = hp ! p \<and>
          unchanged hp (fst (standardize_category_names_h hp p)) \<and>
          length hp \<le> snd (standardize_category_names_h hp p) \<and>
          fst (standardize_category_names_h hp p) ! snd (standardize_category_names_h hp p)
            = standardize_category_names (hp ! p)"
    using assms(2) by (simp add: standardize_h_eq unchanged_append nth_append)
  have c: "fst (enrich_data_h he e) ! e = he ! e \<and>
          unchanged he (fst (enrich_data_h he e)) \<and>
          length he \<le> snd (enrich_data_h he e) \<and>
          fst (enrich_data_h he e) ! snd (enrich_data_h he e) = enrich_data (he ! e)"
    using assms(3) by (simp add: enrich_h_eq unchanged_append nth_append)
  have d: "fst (validate_business_rules_h hp p) ! p = hp ! p \<and>
          unchanged hp (fst (validate_business_rules_h hp p)) \<and>
          (case snd (validate_business_rules_h hp p) of
             Inl err \<Rightarrow> validate_business_rules (hp ! p) = Inl err
           | Inr (res, msgs) \<Rightarrow>
               length hp \<le> res \<and>
               validate_business_rules (hp ! p)
                 = Inr (fst (validate_business_rules_h hp p) ! res, msgs))"
  proof -
    from validate_h_outcome[of hp p] obtain made where
      m: "fst (validate_business_rules_h hp p) = hp @ made"
      and o: "case snd (validate_business_rules_h hp p) of
        Inl err \<Rightarrow> validate_business_rules (hp ! p) = Inl err
      | Inr (res, msgs) \<Rightarrow>
          length hp \<le> res \<and> res < length (hp @ made) \<and>
          validate_business_rules (hp ! p) = Inr ((hp @ made) ! res, msgs)"
      by blast
    have "fst (validate_business_rules_h hp p) ! p = hp ! p"
      using assms(2) by (simp add: m nth_append)
    moreover have "unchanged hp (fst (validate_business_rules_h hp p))"
      by (simp add: m unchanged_append)
    moreover have "case snd (validate_business_rules_h hp p) of
             Inl err \<Rightarrow> validate_business_rules (hp ! p) = Inl err
           | Inr (res, msgs) \<Rightarrow>
               length hp \<le> res \<and>
               validate_business_rules (hp ! p)
                 = Inr (fst (validate_business_rules_h hp p) ! res, msgs)"
      using o unfolding m by (auto split: sum.splits)
    ultimately show ?thesis by blast
  qed
  from a b c d show ?thesis by blast
qed

lemma example_store_run:
  "validate_business_rules_h [[example_row_A, example_row_B]] 0 =
     ([[example_row_A, example_row_B], [example_row_A, example_row_B],
       [example_row_B\<lparr>discount_percent := Fin 20\<rparr>],
       [example_row_B\<lparr>discount_percent := Fin 20\<rparr>]],
      Inr (3, [''Removed 1 products with MRP < Selling Price'',
               ''Fixed 1 products with incorrect discount percentages'']))"
  by (simp add: validate_business_rules_h_def frame_copy_def frame_new_def frame_store_def
        rule1_h_def rule2_h_def rule3_h_def rule4_h_def Let_def
        example_rows rule1_def rule2_def invalid_pricing_def invalid_stock_def
        zero_quantity_def rule2_examples cmp_defs str_nat_1)

theorem transformations_keep_input_witness:
  "validate_business_rules_h [[example_row_A, example_row_B]] 0 =
     ([[example_row_A, example_row_B], [example_row_A, example_row_B],
       [example_row_B\<lparr>discount_percent := Fin 20\<rparr>],
       [example_row_B\<lparr>discount_percent := Fin 20\<rparr>]],
      Inr (3, [''Removed 1 products with MRP < Selling Price'',
               ''Fixed 1 products with incorrect discount percentages''])) \<and>
   validate_business_rules [example_row_A, example_row_B] =
     Inr ([example_row_B\<lparr>discount_percent := Fin 20\<rparr>],
          [''Removed 1 products with MRP < Selling Price'',
           ''Fixed 1 products with incorrect discount percentages'']) \<and>
   fst (clean_currency_values_h text_of_cell parse_digits [example_prices] 0 [''mrp'']) ! 0
     = example_prices \<and>
   fst (standardize_category_names_h [[example_row_A, example_row_B]] 0) ! 0
     = [example_row_A, example_row_B] \<and>
   fst (enrich_data_h [\<lparr>base = [example_row_B], added = []\<rparr>] 0) ! 0
     = \<lparr>base = [example_row_B], added = []\<rparr>"
  using transformations_keep_input[of 0 "[example_prices]" 0
          "[[example_row_A, example_row_B]]" 0 "[\<lparr>base = [example_row_B], added = []\<rparr>]"
          text_of_cell parse_digits "[''mrp'']"]
  by (simp add: example_store_run)

end
